theory Spec2Isabelle
  imports Main
begin

section \<open>The template repository page of ManageTemplateReposCmd.ts\<close>

text \<open>
  A shallow embedding of \<^verbatim>\<open>dev/src/command/connection/ManageTemplateReposCmd.ts\<close>:
  the module-level panel reference, the open command, the page refresh, the webview
  message handler, the two-step prompt for a new repository and the URL validator.

  JavaScript strings are modelled as \<^typ>\<open>string\<close>, read as lists of code units below
  256. Everything the file imports (the VS Code API, Node's \<^verbatim>\<open>URL\<close> class, the
  \<^verbatim>\<open>Requester\<close>, the page generator) is a parameter of the model.
\<close>

subsection \<open>String operations of the JavaScript library\<close>

text \<open>\<^verbatim>\<open>s.startsWith(p)\<close>.\<close>

fun startsWith :: "string \<Rightarrow> string \<Rightarrow> bool" where
  "startsWith s [] = True"
| "startsWith [] (p # ps) = False"
| "startsWith (c # cs) (p # ps) = (c = p \<and> startsWith cs ps)"

text \<open>\<^verbatim>\<open>s.includes(sub)\<close>: \<open>sub\<close> occurs in \<open>s\<close> as a contiguous block.\<close>

fun includes_str :: "string \<Rightarrow> string \<Rightarrow> bool" where
  "includes_str [] sub = (sub = [])"
| "includes_str (c # cs) sub = (startsWith (c # cs) sub \<or> includes_str cs sub)"

text \<open>
  The code units below 256 that \<^verbatim>\<open>String.prototype.trim\<close> removes: tab, line feed,
  vertical tab, form feed, carriage return, space and the no-break space.
\<close>

definition isWhiteSpace :: "char \<Rightarrow> bool" where
  "isWhiteSpace c = (of_char c \<in> {9, 10, 11, 12, 13, 32, 160 :: nat})"

text \<open>\<^verbatim>\<open>s.trim()\<close>.\<close>

definition trim :: "string \<Rightarrow> string" where
  "trim s = rev (dropWhile isWhiteSpace (rev (dropWhile isWhiteSpace s)))"

text \<open>
  \<^verbatim>\<open>s.replace(/pat/g, rep)\<close> for a pattern that is a plain string: every occurrence,
  scanning from the left, not overlapping.
\<close>

fun replace_g :: "string \<Rightarrow> string \<Rightarrow> string \<Rightarrow> string" where
  "replace_g pat rep [] = []"
| "replace_g pat rep (c # cs) =
     (if pat \<noteq> [] \<and> startsWith (c # cs) pat
      then rep @ replace_g pat rep (drop (length pat) (c # cs))
      else c # replace_g pat rep cs)"

subsection \<open>The URL validator\<close>

text \<open>
  The three getters of Node's \<^verbatim>\<open>URL\<close> object that the validator reads.
  \<open>protocol\<close> ends with the colon (\<^verbatim>\<open>"https:"\<close>), \<open>host\<close> is the host name with the
  port when there is one, \<open>pathname\<close> is the path.
\<close>

record URL =
  protocol :: string
  host :: string
  pathname :: string

text \<open>
  \<^verbatim>\<open>new URL(input)\<close> is not code of this file: the validator takes the constructor as
  a parameter of type \<^typ>\<open>string \<Rightarrow> URL option\<close>, where \<open>None\<close> stands for the
  \<^verbatim>\<open>TypeError\<close> that the constructor throws on what is not an absolute URL.
\<close>

definition getRawLinkMsg :: "string \<Rightarrow> string" where
  "getRawLinkMsg provider = ''For '' @ provider @ '' URLs, you must use the raw link.''"

text \<open>
  \<^verbatim>\<open>validateRepoInput\<close>: \<open>None\<close> is \<^verbatim>\<open>undefined\<close> (the input is accepted),
  \<open>Some m\<close> is the message the input box shows. The \<^verbatim>\<open>try\<close> around the constructor
  leaves \<^verbatim>\<open>asUrl\<close> undefined when it throws.
\<close>

definition validateRepoInput :: "(string \<Rightarrow> URL option) \<Rightarrow> string \<Rightarrow> string option" where
  "validateRepoInput new_URL input =
     (case new_URL input of
        None \<Rightarrow> Some ''The repository URL must be a valid http(s) URL.''
      | Some asUrl \<Rightarrow>
          if host asUrl = [] \<or> \<not> startsWith (protocol asUrl) ''http''
          then Some ''The repository URL must be a valid http(s) URL.''
          else if includes_str (host asUrl) ''github'' \<and> \<not> includes_str (host asUrl) ''raw''
          then Some (getRawLinkMsg ''GitHub'')
          else if includes_str (host asUrl) ''bitbucket'' \<and> \<not> includes_str (pathname asUrl) ''raw''
          then Some (getRawLinkMsg ''Bitbucket'')
          else if includes_str (host asUrl) ''gitlab'' \<and> \<not> includes_str (pathname asUrl) ''raw''
          then Some (getRawLinkMsg ''GitLab'')
          else None)"

subsection \<open>Data of the page\<close>

text \<open>Of the \<^verbatim>\<open>Connection\<close> class the file reads only \<^verbatim>\<open>url\<close>.\<close>

record Connection =
  url :: string

text \<open>Template repository data as provided by the backend.\<close>

record IRawTemplateRepo =
  url :: string
  name :: string
  description :: string
  enabled :: bool
  protected :: bool

text \<open>The enum \<^verbatim>\<open>ManageReposWVMessages\<close>: the \<^verbatim>\<open>type\<close> strings of the webview's messages.\<close>

definition ADD_NEW :: string where "ADD_NEW = ''add-new''"
definition DELETE :: string where "DELETE = ''delete''"
definition HELP :: string where "HELP = ''help''"
definition REFRESH :: string where "REFRESH = ''refresh''"
definition ENABLE_DISABLE :: string where "ENABLE_DISABLE = ''enableOrDisable''"

definition REPOS_PAGE_TITLE :: string where "REPOS_PAGE_TITLE = ''Template Repositories''"

text \<open>The \<^verbatim>\<open>data\<close> field of the \<^verbatim>\<open>ENABLE_DISABLE\<close> event.\<close>

record RepoEnablement =
  repoID :: string
  enable :: bool

record IRepoEnablementEvent =
  repos :: "RepoEnablement list"

text \<open>
  \<^verbatim>\<open>WebviewUtil.IWVMessage\<close>: a \<^verbatim>\<open>type\<close> string and a \<^verbatim>\<open>data\<close> field of type
  \<^verbatim>\<open>any\<close>. The handler casts \<^verbatim>\<open>data\<close> without a check, so whatever the webview
  posted is what the \<^verbatim>\<open>Requester\<close> receives.
\<close>

datatype any = Undefined | String string | Enablement IRepoEnablementEvent

record IWVMessage =
  type :: string
  data :: any

text \<open>What a template literal makes of a value of type \<^verbatim>\<open>any\<close>.\<close>

fun String_of :: "any \<Rightarrow> string" where
  "String_of Undefined = ''undefined''"
| "String_of (String s) = s"
| "String_of (Enablement e) = ''[object Object]''"

text \<open>A thrown value or the reason of a rejected promise.\<close>

datatype error = Error string

subsection \<open>What the outside world sees\<close>

text \<open>
  Every call that leaves the file is recorded, in order: log lines, notifications, input
  boxes, calls of the panel API and of the \<^verbatim>\<open>Requester\<close>. A \<^verbatim>\<open>Requester\<close> call
  and an input box are recorded when they complete, with the error they were rejected
  with, if any.
\<close>

datatype logged = An_any any | A_message IWVMessage | An_error error | A_repoInfo string string

datatype event =
    Log_i string "logged list"
  | Log_d string "logged list"
  | Log_e string "logged list"
  | showErrorMessage string error
  | showInformationMessage string
  | createWebviewPanel nat string
  | reveal nat
  | set_html nat string "error option"
  | fs_writeFile string string
  | showInputBox_call string "error option"
  | enableTemplateRepos_call Connection any "error option"
  | addTemplateRepo_call Connection string string "error option"
  | removeTemplateRepo_call Connection any "error option"
  | get_TEMPLATE_REPOS_call Connection "error option"
  | unhandled_rejection error

text \<open>A webview panel of the host, with the listeners this file registers on it.\<close>

record panel =
  title :: string
  html :: string
  iconPath :: "(string \<times> string) option"
  onDidDispose :: bool
  onDidReceiveMessage :: "Connection option"

text \<open>
  The state: the module-level variable \<^verbatim>\<open>manageReposPage\<close> (a panel handle or
  \<^verbatim>\<open>undefined\<close>), the host's live panels by handle, the host's next fresh handle,
  the state \<open>outside\<close> of the backend and the user, and the record of calls.
\<close>

record 'e world =
  manageReposPage :: "nat option"
  panels :: "nat \<rightharpoonup> panel"
  next_handle :: nat
  outside :: 'e
  trace :: "event list"

text \<open>The options the file passes to \<^verbatim>\<open>vscode.window.showInputBox\<close>.\<close>

record InputBoxOptions =
  ignoreFocusOut :: bool
  placeHolder :: string
  prompt :: string
  validateInput :: "(string \<Rightarrow> string option) option"

text \<open>
  The imports of the file. A promise is a function of the outside state that returns
  \<open>Inl err\<close> when it is rejected and \<open>Inr v\<close> when it resolves, with the outside state
  after it.
\<close>

record 'e host =
  new_URL :: "string \<Rightarrow> URL option"
  enableTemplateRepos :: "Connection \<Rightarrow> any \<Rightarrow> 'e \<Rightarrow> (error + unit) \<times> 'e"
  addTemplateRepo :: "Connection \<Rightarrow> string \<Rightarrow> string \<Rightarrow> 'e \<Rightarrow> (error + unit) \<times> 'e"
  removeTemplateRepo :: "Connection \<Rightarrow> any \<Rightarrow> 'e \<Rightarrow> (error + unit) \<times> 'e"
  get_TEMPLATE_REPOS :: "Connection \<Rightarrow> 'e \<Rightarrow> (error + IRawTemplateRepo list) \<times> 'e"
  generateManageReposHtml :: "IRawTemplateRepo list \<Rightarrow> string"
  showInputBox :: "InputBoxOptions \<Rightarrow> 'e \<Rightarrow> (error + string option) \<times> 'e"
  errToString :: "error \<Rightarrow> string"
  getIconPaths :: "string \<times> string"
  CW_ENV_DEV :: bool

definition emit :: "event \<Rightarrow> 'e world \<Rightarrow> 'e world" where
  "emit ev w = w\<lparr>trace := trace w @ [ev]\<rparr>"

definition rejection :: "error + 'a \<Rightarrow> error option" where
  "rejection r = (case r of Inl err \<Rightarrow> Some err | Inr v \<Rightarrow> None)"

subsection \<open>Calls that leave the file\<close>

definition Requester_enableTemplateRepos ::
  "'e host \<Rightarrow> Connection \<Rightarrow> any \<Rightarrow> 'e world \<Rightarrow> (error + unit) \<times> 'e world" where
  "Requester_enableTemplateRepos h connection enablement w =
     (case enableTemplateRepos h connection enablement (outside w) of
        (r, e) \<Rightarrow> (r, emit (enableTemplateRepos_call connection enablement (rejection r))
                          (w\<lparr>outside := e\<rparr>)))"

definition Requester_addTemplateRepo ::
  "'e host \<Rightarrow> Connection \<Rightarrow> string \<Rightarrow> string \<Rightarrow> 'e world \<Rightarrow> (error + unit) \<times> 'e world" where
  "Requester_addTemplateRepo h connection repoUrl descr w =
     (case addTemplateRepo h connection repoUrl descr (outside w) of
        (r, e) \<Rightarrow> (r, emit (addTemplateRepo_call connection repoUrl descr (rejection r))
                          (w\<lparr>outside := e\<rparr>)))"

definition Requester_removeTemplateRepo ::
  "'e host \<Rightarrow> Connection \<Rightarrow> any \<Rightarrow> 'e world \<Rightarrow> (error + unit) \<times> 'e world" where
  "Requester_removeTemplateRepo h connection repoUrl w =
     (case removeTemplateRepo h connection repoUrl (outside w) of
        (r, e) \<Rightarrow> (r, emit (removeTemplateRepo_call connection repoUrl (rejection r))
                          (w\<lparr>outside := e\<rparr>)))"

text \<open>
  \<^verbatim>\<open>fetchRepositoryList\<close>: \<^verbatim>\<open>Requester.get\<close> on the connection's
  \<^verbatim>\<open>TEMPLATE_REPOS\<close> endpoint.
\<close>

definition fetchRepositoryList ::
  "'e host \<Rightarrow> Connection \<Rightarrow> 'e world \<Rightarrow> (error + IRawTemplateRepo list) \<times> 'e world" where
  "fetchRepositoryList h connection w =
     (case get_TEMPLATE_REPOS h connection (outside w) of
        (r, e) \<Rightarrow> (r, emit (get_TEMPLATE_REPOS_call connection (rejection r))
                          (w\<lparr>outside := e\<rparr>)))"

definition vscode_window_showInputBox ::
  "'e host \<Rightarrow> InputBoxOptions \<Rightarrow> 'e world \<Rightarrow> (error + string option) \<times> 'e world" where
  "vscode_window_showInputBox h options w =
     (case showInputBox h options (outside w) of
        (r, e) \<Rightarrow> (r, emit (showInputBox_call (prompt options) (rejection r))
                          (w\<lparr>outside := e\<rparr>)))"

text \<open>
  \<^verbatim>\<open>panel.webview.html = html\<close>. The host throws when the panel has been disposed.
\<close>

definition webview_set_html :: "nat \<Rightarrow> string \<Rightarrow> 'e world \<Rightarrow> (error + unit) \<times> 'e world" where
  "webview_set_html p doc w =
     (case panels w p of
        None \<Rightarrow> (Inl (Error ''Webview is disposed''),
                 emit (set_html p doc (Some (Error ''Webview is disposed''))) w)
      | Some pan \<Rightarrow>
          (Inr (), emit (set_html p doc None)
                     (w\<lparr>panels := (panels w)(p \<mapsto> pan\<lparr>html := doc\<rparr>)\<rparr>)))"

subsection \<open>The functions of the file\<close>

text \<open>
  The debugging aid of \<^verbatim>\<open>refreshPage\<close>: when the environment variable says
  development, the page is also written to a file, with every \<^verbatim>\<open>vscode-resource:/\<close>
  replaced. The callback of \<^verbatim>\<open>fs.writeFile\<close> runs later, outside of
  \<^verbatim>\<open>refreshPage\<close>, and is not modelled.
\<close>

definition write_debug_page :: "'e host \<Rightarrow> string \<Rightarrow> 'e world \<Rightarrow> 'e world" where
  "write_debug_page h doc w =
     (if CW_ENV_DEV h
      then emit (fs_writeFile ''/Users/tim/Desktop/manage.html''
                   (replace_g ''vscode-resource:/'' ''file:///'' doc)) w
      else w)"

text \<open>
  \<^verbatim>\<open>refreshPage\<close>. The function reads \<^verbatim>\<open>manageReposPage\<close> twice: in the guard, and
  after the list has been fetched, for the assignment of the page.
\<close>

definition refreshPage :: "'e host \<Rightarrow> Connection \<Rightarrow> 'e world \<Rightarrow> (error + unit) \<times> 'e world" where
  "refreshPage h connection w =
     (case manageReposPage w of
        None \<Rightarrow> (Inr (), emit (Log_e ''Refreshing manage repos page but it doesn't exist'' []) w)
      | Some _ \<Rightarrow>
          (case fetchRepositoryList h connection w of
             (Inl err, w1) \<Rightarrow> (Inl err, w1)
           | (Inr repositories, w1) \<Rightarrow>
               (let doc = generateManageReposHtml h repositories;
                    w2 = write_debug_page h doc w1
                in case manageReposPage w2 of
                     None \<Rightarrow> (Inl (Error ''Cannot read property 'webview' of undefined''), w2)
                   | Some p \<Rightarrow> webview_set_html p doc w2)))"

text \<open>
  \<^verbatim>\<open>promptForNewRepo\<close>. A JavaScript string is falsy when it is \<^verbatim>\<open>undefined\<close> or
  empty: \<open>truthy\<close> gives the string of a value that is not falsy. The result of the
  function is \<open>None\<close> for \<^verbatim>\<open>undefined\<close> and \<open>Some (repoUrl, description)\<close> for the
  object with these two fields.
\<close>

definition truthy :: "string option \<Rightarrow> string option" where
  "truthy s = (case s of None \<Rightarrow> None | Some t \<Rightarrow> if t = [] then None else Some t)"

definition url_box :: "'e host \<Rightarrow> InputBoxOptions" where
  "url_box h =
     \<lparr>ignoreFocusOut = True,
      placeHolder = ''https://raw.githubusercontent.com/kabanero-io/codewind-templates/master/devfiles/index.json'',
      prompt = ''Enter the URL to your template repository's index file.'',
      validateInput = Some (validateRepoInput (new_URL h))\<rparr>"

definition description_box :: InputBoxOptions where
  "description_box =
     \<lparr>ignoreFocusOut = True,
      placeHolder = ''My Templates'',
      prompt = ''Enter a description for this template repository'',
      validateInput = None\<rparr>"

definition promptForNewRepo ::
  "'e host \<Rightarrow> 'e world \<Rightarrow> (error + (string \<times> string) option) \<times> 'e world" where
  "promptForNewRepo h w =
     (case vscode_window_showInputBox h (url_box h) w of
        (Inl err, w1) \<Rightarrow> (Inl err, w1)
      | (Inr answer, w1) \<Rightarrow>
          (case truthy answer of
             None \<Rightarrow> (Inr None, w1)
           | Some repoUrl \<Rightarrow>
               (case vscode_window_showInputBox h description_box w1 of
                  (Inl err, w2) \<Rightarrow> (Inl err, w2)
                | (Inr answer2, w2) \<Rightarrow>
                    (Inr (Some (trim repoUrl,
                                trim (case truthy answer2 of
                                        None \<Rightarrow> ''(No description)''
                                      | Some descr \<Rightarrow> descr))),
                     w2))))"

text \<open>
  The \<^verbatim>\<open>switch\<close> of \<^verbatim>\<open>handleWebviewMessage\<close>, inside the outer \<^verbatim>\<open>try\<close>. The
  connection is the \<^verbatim>\<open>this\<close> the handler was bound to. \<open>Inl err\<close> is an error that
  reaches the outer \<^verbatim>\<open>catch\<close>.
\<close>

definition handle_ENABLE_DISABLE ::
  "'e host \<Rightarrow> Connection \<Rightarrow> IWVMessage \<Rightarrow> 'e world \<Rightarrow> (error + unit) \<times> 'e world" where
  "handle_ENABLE_DISABLE h connection msg w =
     (case Requester_enableTemplateRepos h connection (data msg)
             (emit (Log_i ''Enable/Disable repos:'' [An_any (data msg)]) w) of
        (Inr u, w1) \<Rightarrow> (Inr (), w1)
      | (Inl err, w1) \<Rightarrow> refreshPage h connection w1)"

text \<open>The \<^verbatim>\<open>catch\<close> of the \<^verbatim>\<open>ADD_NEW\<close> case: a notification, then a log line.\<close>

definition catch_ADD_NEW :: "'e host \<Rightarrow> error \<Rightarrow> 'e world \<Rightarrow> 'e world" where
  "catch_ADD_NEW h err w =
     emit (Log_e ''Error adding new template repo [object Object]'' [An_error err])
       (emit (showErrorMessage
                (''Error adding new template repository: '' @ errToString h err) err) w)"

definition handle_ADD_NEW ::
  "'e host \<Rightarrow> Connection \<Rightarrow> IWVMessage \<Rightarrow> 'e world \<Rightarrow> (error + unit) \<times> 'e world" where
  "handle_ADD_NEW h connection msg w =
     (case promptForNewRepo h
             (emit (Log_d (''Adding new repo to '' @ Connection.url connection) []) w) of
        (Inl err, w1) \<Rightarrow> (Inl err, w1)
      | (Inr None, w1) \<Rightarrow> (Inr (), w1)
      | (Inr (Some (repoUrl, descr)), w1) \<Rightarrow>
          (case Requester_addTemplateRepo h connection repoUrl descr w1 of
             (Inl err, w2) \<Rightarrow> (Inr (), catch_ADD_NEW h err w2)
           | (Inr u, w2) \<Rightarrow>
               (case refreshPage h connection w2 of
                  (Inl err, w3) \<Rightarrow> (Inr (), catch_ADD_NEW h err w3)
                | (Inr u, w3) \<Rightarrow> (Inr (), w3))))"

text \<open>The \<^verbatim>\<open>catch\<close> of the \<^verbatim>\<open>DELETE\<close> case.\<close>

definition catch_DELETE :: "'e host \<Rightarrow> any \<Rightarrow> error \<Rightarrow> 'e world \<Rightarrow> 'e world" where
  "catch_DELETE h repoUrl err w =
     emit (Log_e (''Error removing template repo '' @ String_of repoUrl) [An_error err])
       (emit (showErrorMessage
                (''Error deleting template repository '' @ String_of repoUrl
                 @ '': '' @ errToString h err) err) w)"

definition handle_DELETE ::
  "'e host \<Rightarrow> Connection \<Rightarrow> IWVMessage \<Rightarrow> 'e world \<Rightarrow> (error + unit) \<times> 'e world" where
  "handle_DELETE h connection msg w =
     (let repoUrl = data msg in
      case Requester_removeTemplateRepo h connection repoUrl
             (emit (Log_d (''Delete repo '' @ String_of repoUrl @ '' from ''
                            @ Connection.url connection) []) w) of
        (Inl err, w1) \<Rightarrow> (Inr (), catch_DELETE h repoUrl err w1)
      | (Inr u, w1) \<Rightarrow>
          (case refreshPage h connection w1 of
             (Inl err, w2) \<Rightarrow> (Inr (), catch_DELETE h repoUrl err w2)
           | (Inr u, w2) \<Rightarrow> (Inr (), w2)))"

definition handle_switch ::
  "'e host \<Rightarrow> Connection \<Rightarrow> IWVMessage \<Rightarrow> 'e world \<Rightarrow> (error + unit) \<times> 'e world" where
  "handle_switch h connection msg w =
     (if type msg = ENABLE_DISABLE then handle_ENABLE_DISABLE h connection msg w
      else if type msg = ADD_NEW then handle_ADD_NEW h connection msg w
      else if type msg = DELETE then handle_DELETE h connection msg w
      else if type msg = HELP then
        (Inr (), emit (showInformationMessage
                         ''More information about this page, or open a webpage, probably'') w)
      else if type msg = REFRESH then refreshPage h connection w
      else (Inr (), emit (Log_e ''Received unknown event from manage templates webview:''
                            [A_message msg]) w))"

text \<open>
  \<^verbatim>\<open>handleWebviewMessage\<close>: the \<^verbatim>\<open>switch\<close> in the outer \<^verbatim>\<open>try\<close>, whose
  \<^verbatim>\<open>catch\<close> logs the error and the message. The first component of the result is the
  outcome of the handler's promise.
\<close>

definition handleWebviewMessage ::
  "'e host \<Rightarrow> Connection \<Rightarrow> IWVMessage \<Rightarrow> 'e world \<Rightarrow> (error + unit) \<times> 'e world" where
  "handleWebviewMessage h connection msg w =
     (case handle_switch h connection msg w of
        (Inr u, w1) \<Rightarrow> (Inr (), w1)
      | (Inl err, w1) \<Rightarrow>
          (Inr (),
           emit (Log_e ''Message was'' [A_message msg])
             (emit (Log_e ''Error processing message from manage templates webview''
                      [An_error err]) w1)))"

text \<open>
  \<^verbatim>\<open>manageTemplateReposCmd\<close>. The function has no \<^verbatim>\<open>await\<close>: the guard, the creation
  of the panel and the registration of the two listeners run in one turn of the event
  loop. The call of \<^verbatim>\<open>refreshPage\<close> is not awaited, so its rejection is handled by
  nobody; the model runs it to its end at the place of the call.
\<close>

definition on_panel :: "nat \<Rightarrow> (panel \<Rightarrow> panel) \<Rightarrow> 'e world \<Rightarrow> 'e world" where
  "on_panel p f w =
     (case panels w p of None \<Rightarrow> w | Some pan \<Rightarrow> w\<lparr>panels := (panels w)(p \<mapsto> f pan)\<rparr>)"

definition vscode_window_createWebviewPanel :: "string \<Rightarrow> 'e world \<Rightarrow> nat \<times> 'e world" where
  "vscode_window_createWebviewPanel t w =
     (let p = next_handle w in
      (p, emit (createWebviewPanel p t)
            (w\<lparr>next_handle := Suc p,
               panels := (panels w)(p \<mapsto>
                 \<lparr>title = t, html = [], iconPath = None,
                  onDidDispose = False, onDidReceiveMessage = None\<rparr>)\<rparr>)))"

definition manageTemplateReposCmd :: "'e host \<Rightarrow> Connection \<Rightarrow> 'e world \<Rightarrow> 'e world" where
  "manageTemplateReposCmd h connection w =
     (case manageReposPage w of
        Some p \<Rightarrow> emit (reveal p) w
      | None \<Rightarrow>
          (case vscode_window_createWebviewPanel REPOS_PAGE_TITLE w of
             (p, w0) \<Rightarrow>
               (let w1 = w0\<lparr>manageReposPage := Some p\<rparr>;
                    w2 = emit (reveal p) w1;
                    w3 = on_panel p (\<lambda>pan. pan\<lparr>onDidDispose := True\<rparr>) w2;
                    w4 = on_panel p (\<lambda>pan. pan\<lparr>iconPath := Some (getIconPaths h)\<rparr>) w3
                in case refreshPage h connection w4 of
                     (r, w5) \<Rightarrow>
                       on_panel p (\<lambda>pan. pan\<lparr>onDidReceiveMessage := Some connection\<rparr>)
                         (case r of Inl err \<Rightarrow> emit (unhandled_rejection err) w5
                                  | Inr u \<Rightarrow> w5))))"

subsection \<open>The host's events\<close>

text \<open>
  The host calls into the file in three ways: the user invokes the command, the user
  closes a panel, the webview of a panel posts a message. Closing a panel disposes it and
  runs its \<^verbatim>\<open>onDidDispose\<close> listener, which sets \<^verbatim>\<open>manageReposPage\<close> to
  \<^verbatim>\<open>undefined\<close>; a message reaches the handler registered on the panel, with the
  connection it was bound to. Each call runs to its end before the next event (the host
  delivers events one at a time).
\<close>

datatype host_event = Invoke Connection | Close nat | Post nat IWVMessage

definition dispose :: "nat \<Rightarrow> 'e world \<Rightarrow> 'e world" where
  "dispose p w =
     (case panels w p of
        None \<Rightarrow> w
      | Some pan \<Rightarrow>
          (let w1 = w\<lparr>panels := (panels w)(p := None)\<rparr>
           in if onDidDispose pan then w1\<lparr>manageReposPage := None\<rparr> else w1))"

definition post :: "'e host \<Rightarrow> nat \<Rightarrow> IWVMessage \<Rightarrow> 'e world \<Rightarrow> 'e world" where
  "post h p msg w =
     (case panels w p of
        None \<Rightarrow> w
      | Some pan \<Rightarrow>
          (case onDidReceiveMessage pan of
             None \<Rightarrow> w
           | Some connection \<Rightarrow> snd (handleWebviewMessage h connection msg w)))"

fun step :: "'e host \<Rightarrow> 'e world \<Rightarrow> host_event \<Rightarrow> 'e world" where
  "step h w (Invoke connection) = manageTemplateReposCmd h connection w"
| "step h w (Close p) = dispose p w"
| "step h w (Post p msg) = post h p msg w"

definition run :: "'e host \<Rightarrow> host_event list \<Rightarrow> 'e world \<Rightarrow> 'e world" where
  "run h evs w = foldl (step h) w evs"

text \<open>The state when the extension is loaded: no panel, nothing recorded.\<close>

definition initial :: "'e \<Rightarrow> 'e world" where
  "initial e = \<lparr>manageReposPage = None, panels = Map.empty, next_handle = 0,
                outside = e, trace = []\<rparr>"

subsection \<open>A sample host\<close>

text \<open>
  A host to run the model on: a backend that is a list of repositories, a user who has a
  list of answers ready (\<open>None\<close> for a cancelled box), and the names of the
  \<^verbatim>\<open>Requester\<close> operations that are failing at the moment.
\<close>

record sample =
  backend :: "IRawTemplateRepo list"
  answers :: "string option list"
  failing :: "string list"

definition lower_letters :: string where "lower_letters = ''abcdefghijklmnopqrstuvwxyz''"
definition upper_letters :: string where "upper_letters = ''ABCDEFGHIJKLMNOPQRSTUVWXYZ''"
definition digits :: string where "digits = ''0123456789''"

definition toLowerCase :: "string \<Rightarrow> string" where
  "toLowerCase s =
     map (\<lambda>c. case map_of (zip upper_letters lower_letters) c of None \<Rightarrow> c | Some l \<Rightarrow> l) s"

text \<open>
  \<^verbatim>\<open>new URL(input)\<close> of the sample host follows the URL standard that Node implements,
  on inputs of the shape \<^verbatim>\<open>scheme://host/path\<close> where the scheme is a letter followed
  by letters, digits, \<^verbatim>\<open>+\<close>, \<^verbatim>\<open>-\<close> and \<^verbatim>\<open>.\<close>; the host is made of non-empty
  labels of lower-case letters, digits and \<^verbatim>\<open>-\<close>, none starting with \<^verbatim>\<open>xn--\<close> and the
  last one starting with a letter (so the host is neither an IP address nor an
  internationalised name); and the path is made of segments of letters, digits and
  \<^verbatim>\<open>-._~\<close>, none of them \<^verbatim>\<open>.\<close> or \<^verbatim>\<open>..\<close>. On these the constructor lower-cases
  the scheme, keeps host and path, and gives the path \<^verbatim>\<open>/\<close> to an \<^verbatim>\<open>http\<close> or
  \<^verbatim>\<open>https\<close> URL without one. An input with no \<^verbatim>\<open>:\<close> after its leading scheme
  characters has no scheme, and the constructor throws. On every other input the sample
  answers \<open>None\<close> too; the sample is used on no such input.
\<close>

definition sample_URL :: "string \<Rightarrow> URL option" where
  "sample_URL input =
     (let scheme_char = (\<lambda>c. c \<in> set (lower_letters @ upper_letters @ digits @ ''+-.''));
          scheme = takeWhile scheme_char input;
          rest = dropWhile scheme_char input;
          authority = takeWhile (\<lambda>c. c \<noteq> CHR ''/'') (drop 3 rest);
          path = dropWhile (\<lambda>c. c \<noteq> CHR ''/'') (drop 3 rest);
          last_label = rev (takeWhile (\<lambda>c. c \<noteq> CHR ''.'') (rev authority))
      in if scheme \<noteq> [] \<and> hd scheme \<in> set (lower_letters @ upper_letters)
            \<and> startsWith rest ''://''
            \<and> authority \<noteq> [] \<and> list_all (\<lambda>c. c \<in> set (lower_letters @ digits @ ''-.'')) authority
            \<and> last_label \<noteq> [] \<and> hd last_label \<in> set lower_letters
            \<and> hd authority \<noteq> CHR ''.'' \<and> \<not> includes_str authority ''..''
            \<and> \<not> includes_str authority ''xn--''
            \<and> list_all (\<lambda>c. c \<in> set (lower_letters @ upper_letters @ digits @ ''-._~/'')) path
            \<and> \<not> includes_str (path @ ''/'') ''/./'' \<and> \<not> includes_str (path @ ''/'') ''/../''
         then Some \<lparr>protocol = toLowerCase scheme @ '':'',
                    host = authority,
                    pathname = (if path = [] \<and> toLowerCase scheme \<in> {''http'', ''https''}
                                then ''/'' else path)\<rparr>
         else None)"

fun set_enabled :: "RepoEnablement list \<Rightarrow> IRawTemplateRepo \<Rightarrow> IRawTemplateRepo" where
  "set_enabled [] r = r"
| "set_enabled (x # xs) r =
     set_enabled xs (if repoID x = IRawTemplateRepo.url r then r\<lparr>enabled := enable x\<rparr> else r)"

definition sample_host :: "sample host" where
  "sample_host =
     \<lparr>new_URL = sample_URL,
      enableTemplateRepos = (\<lambda>c d e.
        case d of
          Enablement ev \<Rightarrow>
            if ''enable'' \<in> set (failing e) then (Inl (Error ''enablement failed''), e)
            else (Inr (), e\<lparr>backend := map (set_enabled (repos ev)) (backend e)\<rparr>)
        | _ \<Rightarrow> (Inl (Error ''bad request''), e)),
      addTemplateRepo = (\<lambda>c u d e.
        if ''add'' \<in> set (failing e) \<or> u \<in> IRawTemplateRepo.url ` set (backend e)
        then (Inl (Error ''add failed''), e)
        else (Inr (), e\<lparr>backend := backend e @
                [\<lparr>url = u, name = u, description = d, enabled = True, protected = False\<rparr>]\<rparr>)),
      removeTemplateRepo = (\<lambda>c d e.
        case d of
          String u \<Rightarrow>
            if ''remove'' \<in> set (failing e)
               \<or> u \<in> IRawTemplateRepo.url ` set (filter protected (backend e))
            then (Inl (Error ''remove failed''), e)
            else (Inr (), e\<lparr>backend := filter (\<lambda>r. IRawTemplateRepo.url r \<noteq> u) (backend e)\<rparr>)
        | _ \<Rightarrow> (Inl (Error ''bad request''), e)),
      get_TEMPLATE_REPOS = (\<lambda>c e.
        if ''get'' \<in> set (failing e) then (Inl (Error ''get failed''), e)
        else (Inr (backend e), e)),
      generateManageReposHtml = (\<lambda>rs.
        concat (map (\<lambda>r. ''<tr>'' @ IRawTemplateRepo.url r
                          @ (if enabled r then '' on'' else '' off'') @ ''</tr>'') rs)),
      showInputBox = (\<lambda>opts e.
        case answers e of
          [] \<Rightarrow> (Inr None, e)
        | a # as \<Rightarrow> (Inr a, e\<lparr>answers := as\<rparr>)),
      errToString = (\<lambda>err. case err of Error m \<Rightarrow> m),
      getIconPaths = (''img/light/logo.svg'', ''img/dark/logo.svg''),
      CW_ENV_DEV = False\<rparr>"

definition localhost :: Connection where
  "localhost = \<lparr>Connection.url = ''http://localhost:9090''\<rparr>"

definition repo_a :: IRawTemplateRepo where
  "repo_a = \<lparr>url = ''https://a.example/raw/index.json'', name = ''a'', description = ''A'',
             enabled = True, protected = False\<rparr>"

definition shelf :: sample where
  "shelf = \<lparr>backend = [repo_a], answers = [], failing = []\<rparr>"

subsection \<open>Notions the properties are stated with\<close>

text \<open>The events recorded between two states.\<close>

definition new_events :: "'e world \<Rightarrow> 'e world \<Rightarrow> event list" where
  "new_events w w' = drop (length (trace w)) (trace w')"

text \<open>
  What a panel is apart from the page it shows: its title, icon and listeners, for every
  live panel.
\<close>

definition listeners ::
  "'e world \<Rightarrow> nat \<Rightarrow> (string \<times> (string \<times> string) option \<times> bool \<times> Connection option) option" where
  "listeners w =
     (\<lambda>q. map_option (\<lambda>pan. (title pan, iconPath pan, onDidDispose pan, onDidReceiveMessage pan))
            (panels w q))"

text \<open>
  The events of a refresh that fetches the list \<open>rs\<close> and shows it in panel \<open>p\<close>: the
  \<^verbatim>\<open>Requester.get\<close> call, the debugging file when the development flag is set, and the
  assignment of the generated page.
\<close>

definition refresh_events ::
  "'e host \<Rightarrow> Connection \<Rightarrow> nat \<Rightarrow> IRawTemplateRepo list \<Rightarrow> event list" where
  "refresh_events h c p rs =
     get_TEMPLATE_REPOS_call c None
     # (if CW_ENV_DEV h
        then [fs_writeFile ''/Users/tim/Desktop/manage.html''
                (replace_g ''vscode-resource:/'' ''file:///'' (generateManageReposHtml h rs))]
        else [])
     @ [set_html p (generateManageReposHtml h rs) None]"

text \<open>The page each live panel shows.\<close>

definition pages :: "'e world \<Rightarrow> nat \<Rightarrow> string option" where
  "pages w = (\<lambda>q. map_option html (panels w q))"

text \<open>
  The error a recorded call ended with, and the events that report an error to the user
  or to the log: a \<^verbatim>\<open>Log.e\<close> line or an error notification that carries it.
\<close>

fun failure_of :: "event \<Rightarrow> error option" where
  "failure_of (showInputBox_call p r) = r"
| "failure_of (enableTemplateRepos_call c d r) = r"
| "failure_of (addTemplateRepo_call c u d r) = r"
| "failure_of (removeTemplateRepo_call c d r) = r"
| "failure_of (get_TEMPLATE_REPOS_call c r) = r"
| "failure_of (set_html p doc r) = r"
| "failure_of ev = None"

fun reports :: "error \<Rightarrow> event \<Rightarrow> bool" where
  "reports err (Log_e m args) = (An_error err \<in> set args)"
| "reports err (showErrorMessage m e) = (e = err)"
| "reports err ev = False"

text \<open>The failed calls of a run of events that no later event of the run reports.\<close>

fun unreported :: "event list \<Rightarrow> event list" where
  "unreported [] = []"
| "unreported (ev # evs) =
     (case failure_of ev of
        None \<Rightarrow> unreported evs
      | Some err \<Rightarrow> if list_ex (reports err) evs then unreported evs else ev # unreported evs)"

fun is_enableTemplateRepos_call :: "event \<Rightarrow> bool" where
  "is_enableTemplateRepos_call (enableTemplateRepos_call c d r) = True"
| "is_enableTemplateRepos_call ev = False"

text \<open>
  What is left to report of a run of events when the code that produced it ended with
  \<open>pend\<close> (the error it threw, or \<open>None\<close>): every failed call that nothing in the run
  reports is a call of \<^verbatim>\<open>enableTemplateRepos\<close>, or failed with the error that is still
  on its way up.
\<close>

definition settled :: "error option \<Rightarrow> event list \<Rightarrow> bool" where
  "settled pend evs =
     (\<forall>ev \<in> set (unreported evs). is_enableTemplateRepos_call ev \<or> failure_of ev = pend)"

text \<open>A string with no white space at either end.\<close>

definition trimmed :: "string \<Rightarrow> bool" where
  "trimmed s = (s = [] \<or> (\<not> isWhiteSpace (hd s) \<and> \<not> isWhiteSpace (last s)))"

text \<open>
  The singleton: when \<^verbatim>\<open>manageReposPage\<close> is \<^verbatim>\<open>undefined\<close> the host has no live
  panel of this file; otherwise it has exactly the panel \<^verbatim>\<open>manageReposPage\<close> refers to,
  and that panel has the listener that clears the reference.
\<close>

definition one_panel :: "'e world \<Rightarrow> bool" where
  "one_panel w =
     (case manageReposPage w of
        None \<Rightarrow> listeners w = Map.empty
      | Some p \<Rightarrow> p < next_handle w \<and> (\<exists>t i m. listeners w = [p \<mapsto> (t, i, True, m)]))"

subsection \<open>Sample runs\<close>

text \<open>
  The sample backend with some operations failing, the sample user with answers ready,
  the state after the command has been invoked once, and three messages of the webview.
\<close>

definition broken :: "string list \<Rightarrow> sample" where
  "broken ops = shelf\<lparr>failing := ops\<rparr>"

definition typing :: "string option list \<Rightarrow> sample" where
  "typing as = shelf\<lparr>answers := as\<rparr>"

definition opened :: "sample \<Rightarrow> sample world" where
  "opened e = manageTemplateReposCmd sample_host localhost (initial e)"

definition disable_a :: IWVMessage where
  "disable_a =
     \<lparr>type = ENABLE_DISABLE,
      data = Enablement
               \<lparr>repos = [\<lparr>repoID = ''https://a.example/raw/index.json'', enable = False\<rparr>]\<rparr>\<rparr>"

definition delete_a :: IWVMessage where
  "delete_a = \<lparr>type = DELETE, data = String ''https://a.example/raw/index.json''\<rparr>"

definition add_new :: IWVMessage where
  "add_new = \<lparr>type = ADD_NEW, data = Undefined\<rparr>"

section \<open>Properties\<close>

subsection \<open>Strings\<close>

lemma startsWith_iff: "startsWith s p \<longleftrightarrow> (\<exists>t. s = p @ t)"
  by (induction s p rule: startsWith.induct) auto

lemma includes_str_iff: "includes_str s sub \<longleftrightarrow> (\<exists>a b. s = a @ sub @ b)"
proof (induction s)
  case Nil
  then show ?case by auto
next
  case (Cons c cs)
  show ?case
  proof
    assume "includes_str (c # cs) sub"
    then consider "startsWith (c # cs) sub" | "includes_str cs sub" by auto
    then show "\<exists>a b. c # cs = a @ sub @ b"
    proof cases
      case 1
      then obtain t where "c # cs = sub @ t" by (auto simp: startsWith_iff)
      then have "c # cs = [] @ sub @ t" by simp
      then show ?thesis by blast
    next
      case 2
      then obtain a b where "cs = a @ sub @ b" using Cons.IH by auto
      then have "c # cs = (c # a) @ sub @ b" by simp
      then show ?thesis by blast
    qed
  next
    assume "\<exists>a b. c # cs = a @ sub @ b"
    then obtain a b where ab: "c # cs = a @ sub @ b" by blast
    show "includes_str (c # cs) sub"
    proof (cases a)
      case Nil
      then have "startsWith (c # cs) sub" using ab by (auto simp: startsWith_iff)
      then show ?thesis by simp
    next
      case (Cons x xs)
      then have "cs = xs @ sub @ b" using ab by simp
      then have "includes_str cs sub" using Cons.IH by blast
      then show ?thesis by simp
    qed
  qed
qed

subsection \<open>The validator on the two GitHub links\<close>

text \<open>
  Claim C7. \<^verbatim>\<open>validateRepoInput\<close> accepts
  \<^verbatim>\<open>https://raw.githubusercontent.com/org/repo/index.json\<close> (it returns no message) and
  rejects \<^verbatim>\<open>https://github.com/org/repo/index.json\<close> with the GitHub hint to use the raw
  link. The two hypotheses say what Node's \<^verbatim>\<open>URL\<close> constructor makes of the two
  strings: scheme \<^verbatim>\<open>https:\<close>, the host, the path.
\<close>

theorem validate_github_raw_link:
  assumes "parse ''https://raw.githubusercontent.com/org/repo/index.json'' =
             Some \<lparr>protocol = ''https:'', host = ''raw.githubusercontent.com'',
                   pathname = ''/org/repo/index.json''\<rparr>"
    and "parse ''https://github.com/org/repo/index.json'' =
             Some \<lparr>protocol = ''https:'', host = ''github.com'',
                   pathname = ''/org/repo/index.json''\<rparr>"
  shows "validateRepoInput parse ''https://raw.githubusercontent.com/org/repo/index.json'' = None
       \<and> validateRepoInput parse ''https://github.com/org/repo/index.json'' =
           Some ''For GitHub URLs, you must use the raw link.''"
  using assms by (simp add: validateRepoInput_def getRawLinkMsg_def)

theorem validate_github_raw_link_witness:
  "sample_URL ''https://raw.githubusercontent.com/org/repo/index.json'' =
     Some \<lparr>protocol = ''https:'', host = ''raw.githubusercontent.com'',
           pathname = ''/org/repo/index.json''\<rparr>
   \<and> sample_URL ''https://github.com/org/repo/index.json'' =
     Some \<lparr>protocol = ''https:'', host = ''github.com'', pathname = ''/org/repo/index.json''\<rparr>
   \<and> validateRepoInput sample_URL ''https://raw.githubusercontent.com/org/repo/index.json'' = None
   \<and> validateRepoInput sample_URL ''https://github.com/org/repo/index.json'' =
           Some ''For GitHub URLs, you must use the raw link.''"
proof -
  have raw: "sample_URL ''https://raw.githubusercontent.com/org/repo/index.json'' =
     Some \<lparr>protocol = ''https:'', host = ''raw.githubusercontent.com'',
           pathname = ''/org/repo/index.json''\<rparr>"
    by code_simp
  have web: "sample_URL ''https://github.com/org/repo/index.json'' =
     Some \<lparr>protocol = ''https:'', host = ''github.com'', pathname = ''/org/repo/index.json''\<rparr>"
    by code_simp
  show ?thesis
    using validate_github_raw_link [OF raw web] raw web by blast
qed

subsection \<open>Frame lemmas\<close>

lemma emit_simps [simp]:
  "manageReposPage (emit ev w) = manageReposPage w"
  "panels (emit ev w) = panels w"
  "next_handle (emit ev w) = next_handle w"
  "outside (emit ev w) = outside w"
  "trace (emit ev w) = trace w @ [ev]"
  by (simp_all add: emit_def)

lemma write_debug_page_simps [simp]:
  "manageReposPage (write_debug_page h doc w) = manageReposPage w"
  "panels (write_debug_page h doc w) = panels w"
  "next_handle (write_debug_page h doc w) = next_handle w"
  "outside (write_debug_page h doc w) = outside w"
  by (simp_all add: write_debug_page_def)

subsection \<open>A refresh without a panel\<close>

text \<open>
  Claim C9. When \<^verbatim>\<open>refreshPage\<close> is called while \<^verbatim>\<open>manageReposPage\<close> is
  \<^verbatim>\<open>undefined\<close>, it returns normally and the only thing it does is to log the error
  \<^verbatim>\<open>Refreshing manage repos page but it doesn't exist\<close>: nothing is fetched and no
  state other than the log changes.
\<close>

theorem refreshPage_without_panel:
  assumes "manageReposPage w = None"
  shows "refreshPage h connection w =
           (Inr (), emit (Log_e ''Refreshing manage repos page but it doesn't exist'' []) w)"
  using assms by (simp add: refreshPage_def)

theorem refreshPage_without_panel_witness:
  "manageReposPage (initial shelf) = None
   \<and> refreshPage sample_host localhost (initial shelf) =
       (Inr (), emit (Log_e ''Refreshing manage repos page but it doesn't exist'' [])
                  (initial shelf))"
proof -
  have none: "manageReposPage (initial shelf) = None"
    by (simp add: initial_def)
  show ?thesis
    using refreshPage_without_panel [OF none] none by blast
qed

subsection \<open>Messages of an unknown type\<close>

text \<open>
  Claim C8. A message whose \<^verbatim>\<open>type\<close> is none of the five strings of
  \<^verbatim>\<open>ManageReposWVMessages\<close> is only logged: the handler returns normally, the one event
  it records is the \<^verbatim>\<open>Log.e\<close> line with the message, so no \<^verbatim>\<open>Requester\<close>
  operation is called and nothing is refreshed; the panels and the state outside are
  untouched.
\<close>

theorem unknown_message_only_logged:
  assumes "type msg \<notin> {ADD_NEW, DELETE, HELP, REFRESH, ENABLE_DISABLE}"
  shows "handleWebviewMessage h connection msg w =
           (Inr (), emit (Log_e ''Received unknown event from manage templates webview:''
                            [A_message msg]) w)
       \<and> new_events w (snd (handleWebviewMessage h connection msg w)) =
           [Log_e ''Received unknown event from manage templates webview:'' [A_message msg]]
       \<and> outside (snd (handleWebviewMessage h connection msg w)) = outside w
       \<and> panels (snd (handleWebviewMessage h connection msg w)) = panels w"
  using assms by (simp add: handleWebviewMessage_def handle_switch_def new_events_def)

theorem unknown_message_only_logged_witness:
  "type \<lparr>type = ''enable-disable'', data = Undefined\<rparr>
     \<notin> {ADD_NEW, DELETE, HELP, REFRESH, ENABLE_DISABLE}
   \<and> new_events (initial shelf)
       (snd (handleWebviewMessage sample_host localhost
               \<lparr>type = ''enable-disable'', data = Undefined\<rparr> (initial shelf))) =
       [Log_e ''Received unknown event from manage templates webview:''
          [A_message \<lparr>type = ''enable-disable'', data = Undefined\<rparr>]]"
proof -
  have unknown: "type \<lparr>type = ''enable-disable'', data = Undefined\<rparr>
                   \<notin> {ADD_NEW, DELETE, HELP, REFRESH, ENABLE_DISABLE}"
    by (simp add: ADD_NEW_def DELETE_def HELP_def REFRESH_def ENABLE_DISABLE_def)
  show ?thesis
    using unknown_message_only_logged [OF unknown] unknown by blast
qed

subsection \<open>The prompt for a new repository\<close>

lemma trim_decompose:
  "\<exists>a b. s = a @ trim s @ b \<and> list_all isWhiteSpace a \<and> list_all isWhiteSpace b"
proof -
  define t where "t = dropWhile isWhiteSpace s"
  have s: "s = takeWhile isWhiteSpace s @ t"
    by (simp add: t_def)
  have "t = rev (takeWhile isWhiteSpace (rev t) @ dropWhile isWhiteSpace (rev t))"
    by (simp only: takeWhile_dropWhile_id rev_rev_ident)
  then have "t = rev (dropWhile isWhiteSpace (rev t)) @ rev (takeWhile isWhiteSpace (rev t))"
    by (simp only: rev_append)
  then have t: "t = trim s @ rev (takeWhile isWhiteSpace (rev t))"
    by (simp only: trim_def t_def)
  have a: "list_all isWhiteSpace (takeWhile isWhiteSpace s)"
    by (simp add: list_all_iff) (meson set_takeWhileD)
  have b: "list_all isWhiteSpace (rev (takeWhile isWhiteSpace (rev t)))"
    by (simp add: list_all_iff) (meson set_takeWhileD)
  from s t have "s = takeWhile isWhiteSpace s @ trim s @ rev (takeWhile isWhiteSpace (rev t))"
    by simp
  with a b show ?thesis by blast
qed

lemma last_dropWhile_nonempty:
  "dropWhile P xs \<noteq> [] \<Longrightarrow> last (dropWhile P xs) = last xs"
  by (induction xs) (auto split: if_splits)

lemma trimmed_trim: "trimmed (trim s)"
proof (cases "trim s = []")
  case True
  then show ?thesis by (simp add: trimmed_def)
next
  case False
  define t where "t = dropWhile isWhiteSpace s"
  define r where "r = dropWhile isWhiteSpace (rev t)"
  have tr: "trim s = rev r" by (simp add: trim_def t_def r_def)
  with False have r: "r \<noteq> []" by simp
  then have "\<not> isWhiteSpace (hd r)" unfolding r_def by (rule hd_dropWhile)
  then have l: "\<not> isWhiteSpace (last (trim s))" using r by (simp add: tr last_rev)
  have "t \<noteq> []" using r by (auto simp: r_def)
  then have ht: "\<not> isWhiteSpace (hd t)" unfolding t_def by (rule hd_dropWhile)
  have "last r = last (rev t)" using r unfolding r_def by (simp add: last_dropWhile_nonempty)
  then have "hd (trim s) = hd t" using r \<open>t \<noteq> []\<close> by (simp add: tr hd_rev last_rev)
  with ht l show ?thesis by (simp add: trimmed_def)
qed

lemma trim_default: "trim ''(No description)'' = ''(No description)''"
  by code_simp

lemma promptForNewRepo_cancelled:
  assumes "showInputBox h (url_box h) (outside w) = (Inr a, e1)" and "a = None \<or> a = Some []"
  shows "promptForNewRepo h w =
           (Inr None, w\<lparr>outside := e1,
                        trace := trace w @ [showInputBox_call (prompt (url_box h)) None]\<rparr>)"
  using assms
  by (auto simp: promptForNewRepo_def vscode_window_showInputBox_def rejection_def truthy_def
        emit_def)

lemma promptForNewRepo_answered:
  assumes "showInputBox h (url_box h) (outside w) = (Inr (Some u), e1)" and "u \<noteq> []"
    and "showInputBox h description_box e1 = (Inr d, e2)"
  shows "promptForNewRepo h w =
           (Inr (Some (trim u,
                       trim (case truthy d of None \<Rightarrow> ''(No description)'' | Some t \<Rightarrow> t))),
            w\<lparr>outside := e2,
              trace := trace w @ [showInputBox_call (prompt (url_box h)) None,
                                  showInputBox_call (prompt description_box) None]\<rparr>)"
  using assms
  by (simp add: promptForNewRepo_def vscode_window_showInputBox_def rejection_def truthy_def
        emit_def)

text \<open>
  Claim C10. In \<^verbatim>\<open>promptForNewRepo\<close>, once a non-empty URL \<open>u\<close> has been entered, a
  description box that is cancelled (\<open>None\<close>) and one that is submitted empty give the
  same result: the description \<^verbatim>\<open>(No description)\<close>. A non-empty description \<open>t\<close> is
  returned as \<open>trim t\<close>, the URL as \<open>trim u\<close>; both returned strings have no white space
  at either end, and \<open>trim u\<close> is \<open>u\<close> without white space at its two ends.
\<close>

theorem empty_description_is_default:
  assumes "showInputBox h (url_box h) (outside w) = (Inr (Some u), e1)" and "u \<noteq> []"
    and "showInputBox h description_box e1 = (Inr d, e2)"
  shows "(d = None \<or> d = Some [] \<longrightarrow>
            fst (promptForNewRepo h w) = Inr (Some (trim u, ''(No description)'')))
       \<and> (\<forall>t. d = Some t \<and> t \<noteq> [] \<longrightarrow>
            fst (promptForNewRepo h w) = Inr (Some (trim u, trim t)))
       \<and> (\<exists>repoUrl descr. fst (promptForNewRepo h w) = Inr (Some (repoUrl, descr))
            \<and> trimmed repoUrl \<and> trimmed descr)
       \<and> (\<exists>a b. u = a @ trim u @ b \<and> list_all isWhiteSpace a \<and> list_all isWhiteSpace b)"
  using promptForNewRepo_answered [OF assms] trim_decompose [of u]
  by (auto simp: truthy_def trim_default trimmed_trim split: option.splits)

theorem empty_description_is_default_witness:
  "fst (promptForNewRepo sample_host
          (initial (typing [Some ''  https://b.example/raw/index.json '', Some '''']))) =
     Inr (Some (''https://b.example/raw/index.json'', ''(No description)''))
   \<and> fst (promptForNewRepo sample_host
          (initial (typing [Some ''  https://b.example/raw/index.json '', None]))) =
     Inr (Some (''https://b.example/raw/index.json'', ''(No description)''))
   \<and> fst (promptForNewRepo sample_host
          (initial (typing [Some ''  https://b.example/raw/index.json '', Some '' mine '']))) =
     Inr (Some (''https://b.example/raw/index.json'', ''mine''))"
proof -
  have u: "''  https://b.example/raw/index.json '' \<noteq> []" by simp
  have tu: "trim ''  https://b.example/raw/index.json '' = ''https://b.example/raw/index.json''"
    by code_simp
  have tm: "trim '' mine '' = ''mine''" by code_simp
  have url: "showInputBox sample_host (url_box sample_host)
               (outside (initial (typing [Some ''  https://b.example/raw/index.json '', d]))) =
             (Inr (Some ''  https://b.example/raw/index.json ''), typing [d])" for d
    by (simp add: sample_host_def initial_def typing_def)
  have box: "showInputBox sample_host description_box (typing [d]) = (Inr d, typing [])" for d
    by (simp add: sample_host_def typing_def)
  show ?thesis
    using empty_description_is_default [OF url u box, of "Some ''''"]
      empty_description_is_default [OF url u box, of None]
      empty_description_is_default [OF url u box, of "Some '' mine ''"]
    by (simp add: tu tm)
qed

subsection \<open>What a refresh and the handler leave alone\<close>

lemma refreshPage_frame:
  "refreshPage h c w = (r, w') \<Longrightarrow>
   manageReposPage w' = manageReposPage w \<and> next_handle w' = next_handle w
   \<and> listeners w' = listeners w"
  by (auto simp: refreshPage_def fetchRepositoryList_def webview_set_html_def Let_def
        listeners_def
      split: option.splits prod.splits sum.splits)

lemma promptForNewRepo_frame:
  "promptForNewRepo h w = (r, w') \<Longrightarrow>
   manageReposPage w' = manageReposPage w \<and> next_handle w' = next_handle w
   \<and> panels w' = panels w"
  by (auto simp: promptForNewRepo_def vscode_window_showInputBox_def
      split: option.splits prod.splits sum.splits)

lemma handle_switch_frame:
  "handle_switch h c msg w = (r, w') \<Longrightarrow>
   manageReposPage w' = manageReposPage w \<and> next_handle w' = next_handle w
   \<and> listeners w' = listeners w"
  unfolding handle_switch_def handle_ENABLE_DISABLE_def handle_ADD_NEW_def handle_DELETE_def
    Requester_enableTemplateRepos_def Requester_addTemplateRepo_def
    Requester_removeTemplateRepo_def catch_ADD_NEW_def catch_DELETE_def Let_def
  by (auto split: if_splits option.splits prod.splits sum.splits
       dest!: refreshPage_frame promptForNewRepo_frame simp: listeners_def)

lemma handleWebviewMessage_frame:
  "handleWebviewMessage h c msg w = (r, w') \<Longrightarrow>
   manageReposPage w' = manageReposPage w \<and> next_handle w' = next_handle w
   \<and> listeners w' = listeners w"
  by (auto simp: handleWebviewMessage_def listeners_def split: prod.splits sum.splits
      dest!: handle_switch_frame)

lemma refreshPage_trace:
  "\<exists>evs. trace (snd (refreshPage h c w)) = trace w @ evs"
  by (auto simp: refreshPage_def fetchRepositoryList_def webview_set_html_def Let_def
        write_debug_page_def
      split: option.splits prod.splits sum.splits)

lemma new_events_after:
  assumes "trace w1 = trace w @ evs"
  shows "new_events w (snd (refreshPage h c w1)) = evs @ new_events w1 (snd (refreshPage h c w1))"
proof -
  obtain more where "trace (snd (refreshPage h c w1)) = trace w1 @ more"
    using refreshPage_trace by blast
  then show ?thesis using assms by (simp add: new_events_def)
qed

lemma new_events_catch:
  assumes "trace w1 = trace w @ evs"
  shows "new_events w (emit b (emit a (snd (refreshPage h c w1)))) =
           evs @ new_events w1 (snd (refreshPage h c w1)) @ [a, b]"
proof -
  obtain more where "trace (snd (refreshPage h c w1)) = trace w1 @ more"
    using refreshPage_trace by blast
  then show ?thesis using assms by (simp add: new_events_def)
qed

lemma refreshPage_shows_fetched:
  assumes "manageReposPage w = Some p" and "panels w p = Some pan"
    and "get_TEMPLATE_REPOS h c (outside w) = (Inr rs, e)"
  shows "fst (refreshPage h c w) = Inr ()
       \<and> pages (snd (refreshPage h c w)) p = Some (generateManageReposHtml h rs)
       \<and> outside (snd (refreshPage h c w)) = e"
  using assms
  by (simp add: refreshPage_def fetchRepositoryList_def webview_set_html_def Let_def pages_def)

lemma refreshPage_fetched_events:
  assumes "manageReposPage w = Some p" and "panels w p = Some pan"
    and "get_TEMPLATE_REPOS h c (outside w) = (Inr rs, e)"
  shows "fst (refreshPage h c w) = Inr ()
       \<and> pages (snd (refreshPage h c w)) p = Some (generateManageReposHtml h rs)
       \<and> outside (snd (refreshPage h c w)) = e
       \<and> new_events w (snd (refreshPage h c w)) = refresh_events h c p rs"
  using assms
  by (simp add: refreshPage_def fetchRepositoryList_def webview_set_html_def Let_def pages_def
        write_debug_page_def new_events_def refresh_events_def rejection_def)

lemma refreshPage_fetch_fails:
  assumes "manageReposPage w = Some p"
    and "get_TEMPLATE_REPOS h c (outside w) = (Inl err, e)"
  shows "fst (refreshPage h c w) = Inl err
       \<and> panels (snd (refreshPage h c w)) = panels w
       \<and> outside (snd (refreshPage h c w)) = e
       \<and> new_events w (snd (refreshPage h c w)) = [get_TEMPLATE_REPOS_call c (Some err)]"
  using assms
  by (simp add: refreshPage_def fetchRepositoryList_def new_events_def rejection_def)

subsection \<open>A failed enablement\<close>

text \<open>
  Claim C2. When the webview posts an \<^verbatim>\<open>ENABLE_DISABLE\<close> message (type string
  \<^verbatim>\<open>enableOrDisable\<close>) and \<^verbatim>\<open>Requester.enableTemplateRepos\<close> is rejected, the handler
  calls \<^verbatim>\<open>refreshPage\<close> in the state \<open>w1\<close> that the failed call left: the panels, the
  state outside and the panel reference after the handler are those after
  \<^verbatim>\<open>refreshPage\<close> run in \<open>w1\<close>, and the events of the handler are the log line, the failed
  call, the events of that refresh and, if the refresh itself failed, the two log lines
  of the outer \<^verbatim>\<open>catch\<close>. No other \<^verbatim>\<open>Requester\<close> call is made for the single
  repositories of the event. What the refresh does is spelled out: when there is a live
  panel \<open>p\<close> and the backend answers the fetch with the list \<open>rs\<close>, the list is fetched
  after the failed call, the panel shows the page generated from \<open>rs\<close>, and the events
  are exactly the log line, the failed call, the \<^verbatim>\<open>get\<close> call and the assignment of the
  page; when the fetch is rejected, the panels stay as they were and the error is logged
  by the outer \<^verbatim>\<open>catch\<close>.
\<close>

theorem enable_failure_forces_refresh:
  assumes "type msg = ENABLE_DISABLE"
    and "enableTemplateRepos h c (data msg) (outside w) = (Inl err, e1)"
    and "called = [Log_i ''Enable/Disable repos:'' [An_any (data msg)],
                   enableTemplateRepos_call c (data msg) (Some err)]"
    and "w1 = w\<lparr>outside := e1, trace := trace w @ called\<rparr>"
    and "w' = snd (handleWebviewMessage h c msg w)"
  shows "panels w' = panels (snd (refreshPage h c w1))
       \<and> outside w' = outside (snd (refreshPage h c w1))
       \<and> manageReposPage w' = manageReposPage (snd (refreshPage h c w1))
       \<and> new_events w w' =
           called @ new_events w1 (snd (refreshPage h c w1))
           @ (case fst (refreshPage h c w1) of
                Inl e \<Rightarrow> [Log_e ''Error processing message from manage templates webview''
                            [An_error e],
                          Log_e ''Message was'' [A_message msg]]
              | Inr u \<Rightarrow> [])
       \<and> (\<forall>p pan rs e2.
             manageReposPage w = Some p \<longrightarrow> panels w p = Some pan \<longrightarrow>
             get_TEMPLATE_REPOS h c e1 = (Inr rs, e2) \<longrightarrow>
               pages w' p = Some (generateManageReposHtml h rs) \<and> outside w' = e2
             \<and> new_events w w' = called @ refresh_events h c p rs)
       \<and> (\<forall>p err2 e2.
             manageReposPage w = Some p \<longrightarrow>
             get_TEMPLATE_REPOS h c e1 = (Inl err2, e2) \<longrightarrow>
               panels w' = panels w \<and> outside w' = e2
             \<and> new_events w w' = called @
                 [get_TEMPLATE_REPOS_call c (Some err2),
                  Log_e ''Error processing message from manage templates webview''
                    [An_error err2],
                  Log_e ''Message was'' [A_message msg]])"
proof -
  have w1: "w1 = emit (enableTemplateRepos_call c (data msg) (Some err))
                   ((emit (Log_i ''Enable/Disable repos:'' [An_any (data msg)]) w)
                      \<lparr>outside := e1\<rparr>)"
    using assms(3,4) by (simp add: emit_def)
  have sw: "handle_switch h c msg w = refreshPage h c w1"
    using assms(1,2) w1
    by (simp add: handle_switch_def handle_ENABLE_DISABLE_def Requester_enableTemplateRepos_def
          rejection_def)
  have t1: "trace w1 = trace w @ called" using assms(4) by simp
  obtain r w2 where rf: "refreshPage h c w1 = (r, w2)" by (cases "refreshPage h c w1")
  have ne: "new_events w w2 = called @ new_events w1 w2"
    using new_events_after [OF t1, of h c] rf by simp
  have nc: "\<And>a b. new_events w (emit b (emit a w2)) = called @ new_events w1 w2 @ [a, b]"
    using new_events_catch [OF t1, of _ _ h c] rf by simp
  have base: "panels w' = panels (snd (refreshPage h c w1))
       \<and> outside w' = outside (snd (refreshPage h c w1))
       \<and> manageReposPage w' = manageReposPage (snd (refreshPage h c w1))
       \<and> new_events w w' =
           called @ new_events w1 (snd (refreshPage h c w1))
           @ (case fst (refreshPage h c w1) of
                Inl e \<Rightarrow> [Log_e ''Error processing message from manage templates webview''
                            [An_error e],
                          Log_e ''Message was'' [A_message msg]]
              | Inr u \<Rightarrow> [])"
    using sw rf ne nc assms(5)
    by (cases r) (simp_all add: handleWebviewMessage_def)
  have fetched: "pages w' p = Some (generateManageReposHtml h rs) \<and> outside w' = e2
             \<and> new_events w w' = called @ refresh_events h c p rs"
    if "manageReposPage w = Some p" "panels w p = Some pan"
       "get_TEMPLATE_REPOS h c e1 = (Inr rs, e2)" for p pan rs e2
  proof -
    have "fst (refreshPage h c w1) = Inr ()
       \<and> pages (snd (refreshPage h c w1)) p = Some (generateManageReposHtml h rs)
       \<and> outside (snd (refreshPage h c w1)) = e2
       \<and> new_events w1 (snd (refreshPage h c w1)) = refresh_events h c p rs"
      by (rule refreshPage_fetched_events [where pan = pan]) (use that assms(4) in simp_all)
    then show ?thesis using base by (simp add: pages_def)
  qed
  have failed: "panels w' = panels w \<and> outside w' = e2
             \<and> new_events w w' = called @
                 [get_TEMPLATE_REPOS_call c (Some err2),
                  Log_e ''Error processing message from manage templates webview''
                    [An_error err2],
                  Log_e ''Message was'' [A_message msg]]"
    if "manageReposPage w = Some p" "get_TEMPLATE_REPOS h c e1 = (Inl err2, e2)" for p err2 e2
  proof -
    have "fst (refreshPage h c w1) = Inl err2
       \<and> panels (snd (refreshPage h c w1)) = panels w1
       \<and> outside (snd (refreshPage h c w1)) = e2
       \<and> new_events w1 (snd (refreshPage h c w1)) = [get_TEMPLATE_REPOS_call c (Some err2)]"
      by (rule refreshPage_fetch_fails [where p = p]) (use that assms(4) in simp_all)
    then show ?thesis using base assms(4) by simp
  qed
  have c5: "\<forall>p pan rs e2.
             manageReposPage w = Some p \<longrightarrow> panels w p = Some pan \<longrightarrow>
             get_TEMPLATE_REPOS h c e1 = (Inr rs, e2) \<longrightarrow>
               pages w' p = Some (generateManageReposHtml h rs) \<and> outside w' = e2
             \<and> new_events w w' = called @ refresh_events h c p rs"
    using fetched by (intro allI impI)
  have c6: "\<forall>p err2 e2.
             manageReposPage w = Some p \<longrightarrow>
             get_TEMPLATE_REPOS h c e1 = (Inl err2, e2) \<longrightarrow>
               panels w' = panels w \<and> outside w' = e2
             \<and> new_events w w' = called @
                 [get_TEMPLATE_REPOS_call c (Some err2),
                  Log_e ''Error processing message from manage templates webview''
                    [An_error err2],
                  Log_e ''Message was'' [A_message msg]]"
    using failed by (intro allI impI)
  from base c5 c6 show ?thesis by (simp only: simp_thms)
qed

theorem enable_failure_forces_refresh_witness:
  "type disable_a = ENABLE_DISABLE
   \<and> enableTemplateRepos sample_host localhost (data disable_a)
       (outside (opened (broken [''enable'']))) =
       (Inl (Error ''enablement failed''), broken [''enable''])
   \<and> get_TEMPLATE_REPOS sample_host localhost (broken [''enable'']) =
       (Inr [repo_a], broken [''enable''])
   \<and> panels (snd (handleWebviewMessage sample_host localhost disable_a
                    (opened (broken [''enable''])))) =
     panels (snd (refreshPage sample_host localhost
       ((opened (broken [''enable'']))
          \<lparr>outside := broken [''enable''],
           trace := trace (opened (broken [''enable''])) @
             [Log_i ''Enable/Disable repos:'' [An_any (data disable_a)],
              enableTemplateRepos_call localhost (data disable_a)
                (Some (Error ''enablement failed''))]\<rparr>)))
   \<and> pages (snd (handleWebviewMessage sample_host localhost disable_a
                   (opened (broken [''enable''])))) 0 =
       Some (generateManageReposHtml sample_host [repo_a])
   \<and> new_events (opened (broken [''enable'']))
       (snd (handleWebviewMessage sample_host localhost disable_a
               (opened (broken [''enable''])))) =
       [Log_i ''Enable/Disable repos:'' [An_any (data disable_a)],
        enableTemplateRepos_call localhost (data disable_a)
          (Some (Error ''enablement failed'')),
        get_TEMPLATE_REPOS_call localhost None,
        set_html 0 (generateManageReposHtml sample_host [repo_a]) None]
   \<and> get_TEMPLATE_REPOS sample_host localhost (broken [''enable'', ''get'']) =
       (Inl (Error ''get failed''), broken [''enable'', ''get''])
   \<and> new_events (opened (broken [''enable'', ''get'']))
       (snd (handleWebviewMessage sample_host localhost disable_a
               (opened (broken [''enable'', ''get''])))) =
       [Log_i ''Enable/Disable repos:'' [An_any (data disable_a)],
        enableTemplateRepos_call localhost (data disable_a)
          (Some (Error ''enablement failed'')),
        get_TEMPLATE_REPOS_call localhost (Some (Error ''get failed'')),
        Log_e ''Error processing message from manage templates webview''
          [An_error (Error ''get failed'')],
        Log_e ''Message was'' [A_message disable_a]]"
proof -
  have ty: "type disable_a = ENABLE_DISABLE" by (simp add: disable_a_def)
  have fails: "enableTemplateRepos sample_host localhost (data disable_a)
       (outside (opened (broken [''enable'']))) =
       (Inl (Error ''enablement failed''), broken [''enable''])"
    by code_simp
  have page: "manageReposPage (opened (broken [''enable''])) = Some 0" by code_simp
  have pan: "panels (opened (broken [''enable''])) 0 =
     Some \<lparr>title = REPOS_PAGE_TITLE, html = ''<tr>https://a.example/raw/index.json on</tr>'',
           iconPath = Some (getIconPaths sample_host), onDidDispose = True,
           onDidReceiveMessage = Some localhost\<rparr>"
    by code_simp
  have get: "get_TEMPLATE_REPOS sample_host localhost (broken [''enable'']) =
       (Inr [repo_a], broken [''enable''])"
    by code_simp
  have dev: "CW_ENV_DEV sample_host = False" by (simp add: sample_host_def)
  note refreshed = enable_failure_forces_refresh [OF ty fails refl refl refl]
  note same = refreshed [THEN conjunct1]
  note shown = refreshed [THEN conjunct2, THEN conjunct2, THEN conjunct2, THEN conjunct2,
                          THEN conjunct1, rule_format, OF page pan get]
  have events: "new_events (opened (broken [''enable'']))
       (snd (handleWebviewMessage sample_host localhost disable_a
               (opened (broken [''enable''])))) =
       [Log_i ''Enable/Disable repos:'' [An_any (data disable_a)],
        enableTemplateRepos_call localhost (data disable_a)
          (Some (Error ''enablement failed'')),
        get_TEMPLATE_REPOS_call localhost None,
        set_html 0 (generateManageReposHtml sample_host [repo_a]) None]"
    using shown by (simp add: refresh_events_def dev)
  have fails2: "enableTemplateRepos sample_host localhost (data disable_a)
       (outside (opened (broken [''enable'', ''get'']))) =
       (Inl (Error ''enablement failed''), broken [''enable'', ''get''])"
    by code_simp
  have page2: "manageReposPage (opened (broken [''enable'', ''get''])) = Some 0" by code_simp
  have get2: "get_TEMPLATE_REPOS sample_host localhost (broken [''enable'', ''get'']) =
       (Inl (Error ''get failed''), broken [''enable'', ''get''])"
    by code_simp
  note stale = enable_failure_forces_refresh [OF ty fails2 refl refl refl,
                 THEN conjunct2, THEN conjunct2, THEN conjunct2, THEN conjunct2,
                 THEN conjunct2, rule_format, OF page2 get2,
                 THEN conjunct2, THEN conjunct2]
  have logged: "new_events (opened (broken [''enable'', ''get'']))
       (snd (handleWebviewMessage sample_host localhost disable_a
               (opened (broken [''enable'', ''get''])))) =
       [Log_i ''Enable/Disable repos:'' [An_any (data disable_a)],
        enableTemplateRepos_call localhost (data disable_a)
          (Some (Error ''enablement failed'')),
        get_TEMPLATE_REPOS_call localhost (Some (Error ''get failed'')),
        Log_e ''Error processing message from manage templates webview''
          [An_error (Error ''get failed'')],
        Log_e ''Message was'' [A_message disable_a]]"
    using stale by simp
  show ?thesis
    by (intro conjI ty fails get same shown [THEN conjunct1] events get2 logged)
qed

subsection \<open>Deleting a repository\<close>

text \<open>
  Claim C3. On a \<^verbatim>\<open>DELETE\<close> message the handler first logs and calls
  \<^verbatim>\<open>Requester.removeTemplateRepo\<close> with the \<^verbatim>\<open>data\<close> of the message. If the call is
  rejected with \<open>err\<close>, the handler shows an error notification with \<open>err\<close>, logs it and
  does nothing else: nothing is fetched, the panels (and so the page shown) are as
  before. If the call resolves, \<^verbatim>\<open>refreshPage\<close> runs in the state \<open>w1\<close> the call left:
  panels and outside state are those after that refresh, and when there is a panel and
  the fetch of the refresh returns the list \<open>rs\<close>, the panel shows the page generated
  from \<open>rs\<close>.
\<close>

theorem delete_removes_then_refreshes:
  assumes "type msg = DELETE"
    and "removeTemplateRepo h c (data msg) (outside w) = (r, e1)"
    and "called = [Log_d (''Delete repo '' @ String_of (data msg) @ '' from ''
                           @ Connection.url c) [],
                   removeTemplateRepo_call c (data msg) (rejection r)]"
    and "w1 = w\<lparr>outside := e1, trace := trace w @ called\<rparr>"
    and "w' = snd (handleWebviewMessage h c msg w)"
  shows "take 2 (new_events w w') = called
       \<and> (\<forall>err. r = Inl err \<longrightarrow>
             new_events w w' = called @
               [showErrorMessage (''Error deleting template repository '' @ String_of (data msg)
                                  @ '': '' @ errToString h err) err,
                Log_e (''Error removing template repo '' @ String_of (data msg)) [An_error err]]
             \<and> panels w' = panels w \<and> outside w' = e1)
       \<and> (r = Inr () \<longrightarrow>
             panels w' = panels (snd (refreshPage h c w1))
             \<and> outside w' = outside (snd (refreshPage h c w1))
             \<and> new_events w w' = called @ new_events w1 (snd (refreshPage h c w1))
                 @ (case fst (refreshPage h c w1) of
                      Inl err \<Rightarrow>
                        [showErrorMessage (''Error deleting template repository ''
                           @ String_of (data msg) @ '': '' @ errToString h err) err,
                         Log_e (''Error removing template repo '' @ String_of (data msg))
                           [An_error err]]
                    | Inr u \<Rightarrow> []))
       \<and> (\<forall>p pan rs e2. r = Inr () \<and> manageReposPage w = Some p \<and> panels w p = Some pan
               \<and> get_TEMPLATE_REPOS h c e1 = (Inr rs, e2) \<longrightarrow>
             pages w' p = Some (generateManageReposHtml h rs) \<and> outside w' = e2)"
proof -
  have w1: "w1 = emit (removeTemplateRepo_call c (data msg) (rejection r))
                   ((emit (Log_d (''Delete repo '' @ String_of (data msg) @ '' from ''
                             @ Connection.url c) []) w)\<lparr>outside := e1\<rparr>)"
    using assms(3,4) by (simp add: emit_def)
  have t1: "trace w1 = trace w @ called" using assms(4) by simp
  have two: "length called = 2" using assms(3) by simp
  show ?thesis
  proof (cases r)
    case (Inl err)
    then have "handleWebviewMessage h c msg w = (Inr (), catch_DELETE h (data msg) err w1)"
      using assms(1,2) w1
      by (simp add: handleWebviewMessage_def handle_switch_def handle_DELETE_def Let_def
            Requester_removeTemplateRepo_def ENABLE_DISABLE_def ADD_NEW_def DELETE_def)
    then have "w' = catch_DELETE h (data msg) err w1" using assms(5) by simp
    then show ?thesis
      using Inl t1 two assms(4) by (simp add: catch_DELETE_def new_events_def)
  next
    case (Inr u)
    obtain r2 w2 where rf: "refreshPage h c w1 = (r2, w2)" by (cases "refreshPage h c w1")
    have sw: "handle_switch h c msg w =
            (case r2 of Inl err \<Rightarrow> (Inr (), catch_DELETE h (data msg) err w2)
                      | Inr u \<Rightarrow> (Inr (), w2))"
      using assms(1,2) w1 Inr rf
      by (simp add: handle_switch_def handle_DELETE_def Let_def
            Requester_removeTemplateRepo_def ENABLE_DISABLE_def ADD_NEW_def DELETE_def
          split: sum.splits)
    have ne: "new_events w w2 = called @ new_events w1 w2"
      using new_events_after [OF t1, of h c] rf by simp
    have nc: "\<And>a b. new_events w (emit b (emit a w2)) = called @ new_events w1 w2 @ [a, b]"
      using new_events_catch [OF t1, of _ _ h c] rf by simp
    have main: "panels w' = panels w2 \<and> outside w' = outside w2
             \<and> new_events w w' = called @ new_events w1 w2
                 @ (case r2 of
                      Inl err \<Rightarrow>
                        [showErrorMessage (''Error deleting template repository ''
                           @ String_of (data msg) @ '': '' @ errToString h err) err,
                         Log_e (''Error removing template repo '' @ String_of (data msg))
                           [An_error err]]
                    | Inr u \<Rightarrow> [])"
      using sw assms(5) ne nc
      by (cases r2) (simp_all add: handleWebviewMessage_def catch_DELETE_def)
    have first: "take 2 (new_events w w') = called"
      using main two by simp
    have shown: "pages w' p = Some (generateManageReposHtml h rs) \<and> outside w' = e2"
      if "manageReposPage w = Some p" "panels w p = Some pan"
         "get_TEMPLATE_REPOS h c e1 = (Inr rs, e2)" for p pan rs e2
    proof -
      have "fst (refreshPage h c w1) = Inr ()
          \<and> pages (snd (refreshPage h c w1)) p = Some (generateManageReposHtml h rs)
          \<and> outside (snd (refreshPage h c w1)) = e2"
        by (rule refreshPage_shows_fetched [where pan = pan]) (use that assms(4) in simp_all)
      then show ?thesis using main rf by (simp add: pages_def)
    qed
    show ?thesis using Inr main first shown rf by auto
  qed
qed

theorem delete_removes_then_refreshes_witness:
  "type delete_a = DELETE
   \<and> removeTemplateRepo sample_host localhost (data delete_a) (outside (opened shelf)) =
       (Inr (), shelf\<lparr>backend := []\<rparr>)
   \<and> get_TEMPLATE_REPOS sample_host localhost (shelf\<lparr>backend := []\<rparr>) =
       (Inr [], shelf\<lparr>backend := []\<rparr>)
   \<and> pages (snd (handleWebviewMessage sample_host localhost delete_a (opened shelf))) 0 =
       Some (generateManageReposHtml sample_host [])
   \<and> removeTemplateRepo sample_host localhost (data delete_a)
       (outside (opened (broken [''remove'']))) =
       (Inl (Error ''remove failed''), broken [''remove''])
   \<and> new_events (opened (broken [''remove'']))
       (snd (handleWebviewMessage sample_host localhost delete_a (opened (broken [''remove''])))) =
     [Log_d (''Delete repo '' @ String_of (data delete_a) @ '' from ''
             @ Connection.url localhost) [],
      removeTemplateRepo_call localhost (data delete_a) (Some (Error ''remove failed'')),
      showErrorMessage (''Error deleting template repository '' @ String_of (data delete_a)
                        @ '': '' @ errToString sample_host (Error ''remove failed''))
        (Error ''remove failed''),
      Log_e (''Error removing template repo '' @ String_of (data delete_a))
        [An_error (Error ''remove failed'')]]
   \<and> panels (snd (handleWebviewMessage sample_host localhost delete_a
                    (opened (broken [''remove''])))) = panels (opened (broken [''remove'']))"
proof -
  have ty: "type delete_a = DELETE" by (simp add: delete_a_def)
  have ok: "removeTemplateRepo sample_host localhost (data delete_a) (outside (opened shelf)) =
       (Inr (), shelf\<lparr>backend := []\<rparr>)"
    by code_simp
  have page: "manageReposPage (opened shelf) = Some 0" by code_simp
  have pan: "panels (opened shelf) 0 =
     Some \<lparr>title = REPOS_PAGE_TITLE, html = ''<tr>https://a.example/raw/index.json on</tr>'',
           iconPath = Some (getIconPaths sample_host), onDidDispose = True,
           onDidReceiveMessage = Some localhost\<rparr>"
    by code_simp
  have get: "get_TEMPLATE_REPOS sample_host localhost (shelf\<lparr>backend := []\<rparr>) =
       (Inr [], shelf\<lparr>backend := []\<rparr>)"
    by code_simp
  have fails: "removeTemplateRepo sample_host localhost (data delete_a)
       (outside (opened (broken [''remove'']))) =
       (Inl (Error ''remove failed''), broken [''remove''])"
    by code_simp
  have shown: "pages (snd (handleWebviewMessage sample_host localhost delete_a (opened shelf))) 0 =
       Some (generateManageReposHtml sample_host [])"
    using delete_removes_then_refreshes [OF ty ok refl refl refl] page pan get by blast
  have kept: "new_events (opened (broken [''remove'']))
       (snd (handleWebviewMessage sample_host localhost delete_a (opened (broken [''remove''])))) =
     [Log_d (''Delete repo '' @ String_of (data delete_a) @ '' from ''
             @ Connection.url localhost) [],
      removeTemplateRepo_call localhost (data delete_a) (Some (Error ''remove failed'')),
      showErrorMessage (''Error deleting template repository '' @ String_of (data delete_a)
                        @ '': '' @ errToString sample_host (Error ''remove failed''))
        (Error ''remove failed''),
      Log_e (''Error removing template repo '' @ String_of (data delete_a))
        [An_error (Error ''remove failed'')]]
   \<and> panels (snd (handleWebviewMessage sample_host localhost delete_a
                    (opened (broken [''remove''])))) = panels (opened (broken [''remove'']))"
    using delete_removes_then_refreshes [OF ty fails refl refl refl]
    by (simp add: rejection_def)
  show ?thesis using ty ok get shown fails kept by blast
qed

subsection \<open>Adding a repository\<close>

text \<open>
  Claim C4. On an \<^verbatim>\<open>ADD_NEW\<close> message the handler logs and opens the input box for
  the URL. If that box is cancelled (or gives the empty string), the handler ends there:
  the log line and the box are the only events, so there is no \<^verbatim>\<open>Requester\<close> call
  and no refresh, and the panels are as before. If it gives the URL \<open>u\<close>, the box for
  the description is opened next, and \<^verbatim>\<open>Requester.addTemplateRepo\<close> is called with
  \<open>trim u\<close> and the description, which is \<^verbatim>\<open>(No description)\<close> when the second box was
  cancelled (or gave the empty string). If the call is rejected with \<open>err\<close>, an error
  notification with \<open>err\<close> and a log line follow and nothing else: no refresh, panels
  as before. If it resolves, \<^verbatim>\<open>refreshPage\<close> runs in the state \<open>w3\<close> the call left:
  when there is a live panel \<open>p\<close> and the backend answers the fetch with the list \<open>rs\<close>,
  the list is fetched after the add, the panel shows the page generated from \<open>rs\<close>, and
  the events are exactly the log line, the two boxes, the add call, the \<^verbatim>\<open>get\<close> call
  and the assignment of the page; when the fetch is rejected, the panels stay as they
  were and the error is shown and logged.
\<close>

theorem add_new_prompts_then_adds:
  assumes "type msg = ADD_NEW"
    and "w' = snd (handleWebviewMessage h c msg w)"
    and "showInputBox h (url_box h) (outside w) = (Inr a, e1)"
    and "asked = [Log_d (''Adding new repo to '' @ Connection.url c) [],
                  showInputBox_call ''Enter the URL to your template repository's index file.''
                    None]"
  shows "(a = None \<or> a = Some [] \<longrightarrow>
            new_events w w' = asked \<and> panels w' = panels w \<and> outside w' = e1)
       \<and> (\<forall>u d e2 descr r e3 called w3.
            a = Some u \<longrightarrow> u \<noteq> [] \<longrightarrow>
            showInputBox h description_box e1 = (Inr d, e2) \<longrightarrow>
            descr = (case d of None \<Rightarrow> ''(No description)''
                     | Some t \<Rightarrow> if t = [] then ''(No description)'' else trim t) \<longrightarrow>
            addTemplateRepo h c (trim u) descr e2 = (r, e3) \<longrightarrow>
            called = asked @
              [showInputBox_call ''Enter a description for this template repository'' None,
               addTemplateRepo_call c (trim u) descr (rejection r)] \<longrightarrow>
            w3 = w\<lparr>outside := e3, trace := trace w @ called\<rparr> \<longrightarrow>
              take 4 (new_events w w') = called
            \<and> (\<forall>err. r = Inl err \<longrightarrow>
                  new_events w w' = called @
                    [showErrorMessage (''Error adding new template repository: ''
                                       @ errToString h err) err,
                     Log_e ''Error adding new template repo [object Object]'' [An_error err]]
                  \<and> panels w' = panels w \<and> outside w' = e3)
            \<and> (r = Inr () \<longrightarrow>
                  panels w' = panels (snd (refreshPage h c w3))
                  \<and> outside w' = outside (snd (refreshPage h c w3))
                  \<and> new_events w w' = called @ new_events w3 (snd (refreshPage h c w3))
                      @ (case fst (refreshPage h c w3) of
                           Inl err \<Rightarrow>
                             [showErrorMessage (''Error adding new template repository: ''
                                                @ errToString h err) err,
                              Log_e ''Error adding new template repo [object Object]''
                                [An_error err]]
                         | Inr u \<Rightarrow> []))
            \<and> (\<forall>p pan rs e4.
                  r = Inr () \<longrightarrow> manageReposPage w = Some p \<longrightarrow>
                  panels w p = Some pan \<longrightarrow>
                  get_TEMPLATE_REPOS h c e3 = (Inr rs, e4) \<longrightarrow>
                    pages w' p = Some (generateManageReposHtml h rs) \<and> outside w' = e4
                  \<and> new_events w w' = called @ refresh_events h c p rs)
            \<and> (\<forall>p err2 e4.
                  r = Inr () \<longrightarrow> manageReposPage w = Some p \<longrightarrow>
                  get_TEMPLATE_REPOS h c e3 = (Inl err2, e4) \<longrightarrow>
                    panels w' = panels w \<and> outside w' = e4
                  \<and> new_events w w' = called @
                      [get_TEMPLATE_REPOS_call c (Some err2),
                       showErrorMessage (''Error adding new template repository: ''
                                         @ errToString h err2) err2,
                       Log_e ''Error adding new template repo [object Object]''
                         [An_error err2]]))"
proof (rule conjI)
  show "a = None \<or> a = Some [] \<longrightarrow>
          new_events w w' = asked \<and> panels w' = panels w \<and> outside w' = e1"
  proof (rule impI)
    assume "a = None \<or> a = Some []"
    then have "promptForNewRepo h
                 (emit (Log_d (''Adding new repo to '' @ Connection.url c) []) w) =
               (Inr None, w\<lparr>outside := e1, trace := trace w @ asked\<rparr>)"
      using promptForNewRepo_cancelled
              [of h "emit (Log_d (''Adding new repo to '' @ Connection.url c) []) w" a e1]
        assms(3,4)
      by (simp add: emit_def url_box_def)
    then have "handleWebviewMessage h c msg w =
                 (Inr (), w\<lparr>outside := e1, trace := trace w @ asked\<rparr>)"
      using assms(1)
      by (simp add: handleWebviewMessage_def handle_switch_def handle_ADD_NEW_def
            ENABLE_DISABLE_def ADD_NEW_def)
    then show "new_events w w' = asked \<and> panels w' = panels w \<and> outside w' = e1"
      using assms(2) by (simp add: new_events_def)
  qed
next
  have "take 4 (new_events w w') = called
            \<and> (\<forall>err. r = Inl err \<longrightarrow>
                  new_events w w' = called @
                    [showErrorMessage (''Error adding new template repository: ''
                                       @ errToString h err) err,
                     Log_e ''Error adding new template repo [object Object]'' [An_error err]]
                  \<and> panels w' = panels w \<and> outside w' = e3)
            \<and> (r = Inr () \<longrightarrow>
                  panels w' = panels (snd (refreshPage h c w3))
                  \<and> outside w' = outside (snd (refreshPage h c w3))
                  \<and> new_events w w' = called @ new_events w3 (snd (refreshPage h c w3))
                      @ (case fst (refreshPage h c w3) of
                           Inl err \<Rightarrow>
                             [showErrorMessage (''Error adding new template repository: ''
                                                @ errToString h err) err,
                              Log_e ''Error adding new template repo [object Object]''
                                [An_error err]]
                         | Inr u \<Rightarrow> []))
            \<and> (\<forall>p pan rs e4.
                  r = Inr () \<longrightarrow> manageReposPage w = Some p \<longrightarrow>
                  panels w p = Some pan \<longrightarrow>
                  get_TEMPLATE_REPOS h c e3 = (Inr rs, e4) \<longrightarrow>
                    pages w' p = Some (generateManageReposHtml h rs) \<and> outside w' = e4
                  \<and> new_events w w' = called @ refresh_events h c p rs)
            \<and> (\<forall>p err2 e4.
                  r = Inr () \<longrightarrow> manageReposPage w = Some p \<longrightarrow>
                  get_TEMPLATE_REPOS h c e3 = (Inl err2, e4) \<longrightarrow>
                    panels w' = panels w \<and> outside w' = e4
                  \<and> new_events w w' = called @
                      [get_TEMPLATE_REPOS_call c (Some err2),
                       showErrorMessage (''Error adding new template repository: ''
                                         @ errToString h err2) err2,
                       Log_e ''Error adding new template repo [object Object]''
                         [An_error err2]])"
    if a: "a = Some u" and ne: "u \<noteq> []"
      and box: "showInputBox h description_box e1 = (Inr d, e2)"
      and descr: "descr = (case d of None \<Rightarrow> ''(No description)''
                           | Some t \<Rightarrow> if t = [] then ''(No description)'' else trim t)"
      and add: "addTemplateRepo h c (trim u) descr e2 = (r, e3)"
      and called: "called = asked @
              [showInputBox_call ''Enter a description for this template repository'' None,
               addTemplateRepo_call c (trim u) descr (rejection r)]"
      and w3: "w3 = w\<lparr>outside := e3, trace := trace w @ called\<rparr>"
    for u d e2 descr r e3 called w3
  proof -
    have trimmed_descr:
      "trim (case truthy d of None \<Rightarrow> ''(No description)'' | Some t \<Rightarrow> t) = descr"
      using descr by (auto simp: truthy_def trim_default split: option.splits)
    have "promptForNewRepo h (emit (Log_d (''Adding new repo to '' @ Connection.url c) []) w) =
           (Inr (Some (trim u, descr)),
            w\<lparr>outside := e2, trace := trace w @ asked @
                 [showInputBox_call ''Enter a description for this template repository''
                    None]\<rparr>)"
      using promptForNewRepo_answered
              [of h "emit (Log_d (''Adding new repo to '' @ Connection.url c) []) w" u e1 d e2]
        assms(3,4) a ne box trimmed_descr
      by (simp add: emit_def url_box_def description_box_def)
    then have sw: "handle_switch h c msg w =
      (case refreshPage h c w3 of
         (Inl err, w4) \<Rightarrow> (case r of Inl err1 \<Rightarrow> (Inr (), catch_ADD_NEW h err1 w3)
                                   | Inr u \<Rightarrow> (Inr (), catch_ADD_NEW h err w4))
       | (Inr u, w4) \<Rightarrow> (case r of Inl err1 \<Rightarrow> (Inr (), catch_ADD_NEW h err1 w3)
                                   | Inr u \<Rightarrow> (Inr (), w4)))"
      using assms(1) add called w3
      by (auto simp: handle_switch_def handle_ADD_NEW_def Requester_addTemplateRepo_def emit_def
            ENABLE_DISABLE_def ADD_NEW_def split: sum.splits prod.splits)
    have t3: "trace w3 = trace w @ called" using w3 by simp
    have four: "length called = 4" using called assms(4) by simp
    show ?thesis
    proof (cases r)
      case (Inl err)
      then have "w' = catch_ADD_NEW h err w3"
        using sw assms(2) by (simp add: handleWebviewMessage_def split: prod.splits sum.splits)
      then show ?thesis
        using Inl t3 four w3 by (simp add: catch_ADD_NEW_def new_events_def)
    next
      case (Inr v)
      obtain r2 w4 where rf: "refreshPage h c w3 = (r2, w4)" by (cases "refreshPage h c w3")
      have ne: "new_events w w4 = called @ new_events w3 w4"
        using new_events_after [OF t3, of h c] rf by simp
      have nc: "\<And>a b. new_events w (emit b (emit a w4)) = called @ new_events w3 w4 @ [a, b]"
        using new_events_catch [OF t3, of _ _ h c] rf by simp
      have main: "panels w' = panels w4 \<and> outside w' = outside w4
             \<and> new_events w w' = called @ new_events w3 w4
                 @ (case r2 of
                      Inl err \<Rightarrow>
                        [showErrorMessage (''Error adding new template repository: ''
                                                @ errToString h err) err,
                         Log_e ''Error adding new template repo [object Object]''
                           [An_error err]]
                    | Inr u \<Rightarrow> [])"
        using sw assms(2) ne nc Inr rf
        by (cases r2) (simp_all add: handleWebviewMessage_def catch_ADD_NEW_def)
      have c1: "take 4 (new_events w w') = called"
        using main four by simp
      have c2: "\<forall>err. r = Inl err \<longrightarrow>
                  new_events w w' = called @
                    [showErrorMessage (''Error adding new template repository: ''
                                       @ errToString h err) err,
                     Log_e ''Error adding new template repo [object Object]'' [An_error err]]
                  \<and> panels w' = panels w \<and> outside w' = e3"
        using Inr by simp
      have c3: "r = Inr () \<longrightarrow>
                  panels w' = panels (snd (refreshPage h c w3))
                  \<and> outside w' = outside (snd (refreshPage h c w3))
                  \<and> new_events w w' = called @ new_events w3 (snd (refreshPage h c w3))
                      @ (case fst (refreshPage h c w3) of
                           Inl err \<Rightarrow>
                             [showErrorMessage (''Error adding new template repository: ''
                                                @ errToString h err) err,
                              Log_e ''Error adding new template repo [object Object]''
                                [An_error err]]
                         | Inr u \<Rightarrow> [])"
        using main rf by simp
      have fetched: "pages w' p = Some (generateManageReposHtml h rs) \<and> outside w' = e4
                  \<and> new_events w w' = called @ refresh_events h c p rs"
        if "manageReposPage w = Some p" "panels w p = Some pan"
           "get_TEMPLATE_REPOS h c e3 = (Inr rs, e4)" for p pan rs e4
      proof -
        have "fst (refreshPage h c w3) = Inr ()
           \<and> pages (snd (refreshPage h c w3)) p = Some (generateManageReposHtml h rs)
           \<and> outside (snd (refreshPage h c w3)) = e4
           \<and> new_events w3 (snd (refreshPage h c w3)) = refresh_events h c p rs"
          by (rule refreshPage_fetched_events [where pan = pan]) (use that w3 in simp_all)
        then show ?thesis using main rf by (simp add: pages_def)
      qed
      have failed: "panels w' = panels w \<and> outside w' = e4
                  \<and> new_events w w' = called @
                      [get_TEMPLATE_REPOS_call c (Some err2),
                       showErrorMessage (''Error adding new template repository: ''
                                         @ errToString h err2) err2,
                       Log_e ''Error adding new template repo [object Object]''
                         [An_error err2]]"
        if "manageReposPage w = Some p" "get_TEMPLATE_REPOS h c e3 = (Inl err2, e4)"
        for p err2 e4
      proof -
        have "fst (refreshPage h c w3) = Inl err2
           \<and> panels (snd (refreshPage h c w3)) = panels w3
           \<and> outside (snd (refreshPage h c w3)) = e4
           \<and> new_events w3 (snd (refreshPage h c w3)) = [get_TEMPLATE_REPOS_call c (Some err2)]"
          by (rule refreshPage_fetch_fails [where p = p]) (use that w3 in simp_all)
        then show ?thesis using main rf w3 by simp
      qed
      have c4: "\<forall>p pan rs e4.
                  r = Inr () \<longrightarrow> manageReposPage w = Some p \<longrightarrow>
                  panels w p = Some pan \<longrightarrow>
                  get_TEMPLATE_REPOS h c e3 = (Inr rs, e4) \<longrightarrow>
                    pages w' p = Some (generateManageReposHtml h rs) \<and> outside w' = e4
                  \<and> new_events w w' = called @ refresh_events h c p rs"
        using fetched by (intro allI impI)
      have c5: "\<forall>p err2 e4.
                  r = Inr () \<longrightarrow> manageReposPage w = Some p \<longrightarrow>
                  get_TEMPLATE_REPOS h c e3 = (Inl err2, e4) \<longrightarrow>
                    panels w' = panels w \<and> outside w' = e4
                  \<and> new_events w w' = called @
                      [get_TEMPLATE_REPOS_call c (Some err2),
                       showErrorMessage (''Error adding new template repository: ''
                                         @ errToString h err2) err2,
                       Log_e ''Error adding new template repo [object Object]''
                         [An_error err2]]"
        using failed by (intro allI impI)
      show ?thesis
        by (intro conjI c1 c2 c3 c4 c5)
    qed
  qed
  then show "\<forall>u d e2 descr r e3 called w3.
            a = Some u \<longrightarrow> u \<noteq> [] \<longrightarrow>
            showInputBox h description_box e1 = (Inr d, e2) \<longrightarrow>
            descr = (case d of None \<Rightarrow> ''(No description)''
                     | Some t \<Rightarrow> if t = [] then ''(No description)'' else trim t) \<longrightarrow>
            addTemplateRepo h c (trim u) descr e2 = (r, e3) \<longrightarrow>
            called = asked @
              [showInputBox_call ''Enter a description for this template repository'' None,
               addTemplateRepo_call c (trim u) descr (rejection r)] \<longrightarrow>
            w3 = w\<lparr>outside := e3, trace := trace w @ called\<rparr> \<longrightarrow>
              take 4 (new_events w w') = called
            \<and> (\<forall>err. r = Inl err \<longrightarrow>
                  new_events w w' = called @
                    [showErrorMessage (''Error adding new template repository: ''
                                       @ errToString h err) err,
                     Log_e ''Error adding new template repo [object Object]'' [An_error err]]
                  \<and> panels w' = panels w \<and> outside w' = e3)
            \<and> (r = Inr () \<longrightarrow>
                  panels w' = panels (snd (refreshPage h c w3))
                  \<and> outside w' = outside (snd (refreshPage h c w3))
                  \<and> new_events w w' = called @ new_events w3 (snd (refreshPage h c w3))
                      @ (case fst (refreshPage h c w3) of
                           Inl err \<Rightarrow>
                             [showErrorMessage (''Error adding new template repository: ''
                                                @ errToString h err) err,
                              Log_e ''Error adding new template repo [object Object]''
                                [An_error err]]
                         | Inr u \<Rightarrow> []))
            \<and> (\<forall>p pan rs e4.
                  r = Inr () \<longrightarrow> manageReposPage w = Some p \<longrightarrow>
                  panels w p = Some pan \<longrightarrow>
                  get_TEMPLATE_REPOS h c e3 = (Inr rs, e4) \<longrightarrow>
                    pages w' p = Some (generateManageReposHtml h rs) \<and> outside w' = e4
                  \<and> new_events w w' = called @ refresh_events h c p rs)
            \<and> (\<forall>p err2 e4.
                  r = Inr () \<longrightarrow> manageReposPage w = Some p \<longrightarrow>
                  get_TEMPLATE_REPOS h c e3 = (Inl err2, e4) \<longrightarrow>
                    panels w' = panels w \<and> outside w' = e4
                  \<and> new_events w w' = called @
                      [get_TEMPLATE_REPOS_call c (Some err2),
                       showErrorMessage (''Error adding new template repository: ''
                                         @ errToString h err2) err2,
                       Log_e ''Error adding new template repo [object Object]''
                         [An_error err2]])"
    by (intro allI impI)
qed

theorem add_new_prompts_then_adds_witness:
  "type add_new = ADD_NEW
   \<and> new_events (opened (typing [None]))
       (snd (handleWebviewMessage sample_host localhost add_new (opened (typing [None])))) =
     [Log_d (''Adding new repo to '' @ Connection.url localhost) [],
      showInputBox_call ''Enter the URL to your template repository's index file.'' None]
   \<and> new_events (opened (typing [Some ''  https://b.example/raw/index.json '', None]))
       (snd (handleWebviewMessage sample_host localhost add_new
               (opened (typing [Some ''  https://b.example/raw/index.json '', None])))) =
     [Log_d (''Adding new repo to '' @ Connection.url localhost) [],
      showInputBox_call ''Enter the URL to your template repository's index file.'' None,
      showInputBox_call ''Enter a description for this template repository'' None,
      addTemplateRepo_call localhost ''https://b.example/raw/index.json'' ''(No description)''
        None,
      get_TEMPLATE_REPOS_call localhost None,
      set_html 0
        ''<tr>https://a.example/raw/index.json on</tr><tr>https://b.example/raw/index.json on</tr>''
        None]
   \<and> pages (snd (handleWebviewMessage sample_host localhost add_new
               (opened (typing [Some ''  https://b.example/raw/index.json '', None])))) 0 =
     Some ''<tr>https://a.example/raw/index.json on</tr><tr>https://b.example/raw/index.json on</tr>''
   \<and> new_events (opened (typing [Some ''https://a.example/raw/index.json'', Some ''again'']))
       (snd (handleWebviewMessage sample_host localhost add_new
               (opened (typing [Some ''https://a.example/raw/index.json'', Some ''again''])))) =
     [Log_d (''Adding new repo to '' @ Connection.url localhost) [],
      showInputBox_call ''Enter the URL to your template repository's index file.'' None,
      showInputBox_call ''Enter a description for this template repository'' None,
      addTemplateRepo_call localhost ''https://a.example/raw/index.json'' ''again''
        (Some (Error ''add failed'')),
      showErrorMessage (''Error adding new template repository: ''
                        @ errToString sample_host (Error ''add failed'')) (Error ''add failed''),
      Log_e ''Error adding new template repo [object Object]''
        [An_error (Error ''add failed'')]]"
proof -
  have ty: "type add_new = ADD_NEW" by (simp add: add_new_def)
  have out: "outside (opened (typing as)) = typing as" for as
    by (simp add: opened_def manageTemplateReposCmd_def initial_def Let_def
          vscode_window_createWebviewPanel_def refreshPage_def fetchRepositoryList_def
          webview_set_html_def on_panel_def sample_host_def typing_def shelf_def
        split: option.splits sum.splits prod.splits)
  have box: "showInputBox sample_host opts (typing (a # as)) = (Inr a, typing as)" for opts a as
    by (simp add: sample_host_def typing_def)
  have first: "showInputBox sample_host (url_box sample_host) (outside (opened (typing (a # as)))) =
                 (Inr a, typing as)" for a as
    by (simp only: out box)
  have tb: "trim ''  https://b.example/raw/index.json '' = ''https://b.example/raw/index.json''"
    by code_simp
  have ta: "trim ''https://a.example/raw/index.json'' = ''https://a.example/raw/index.json''"
    by code_simp
  have tg: "trim ''again'' = ''again''" by code_simp
  have add_b: "addTemplateRepo sample_host localhost (trim ''  https://b.example/raw/index.json '')
                 ''(No description)'' (typing []) =
               (Inr (), (typing [])\<lparr>backend := [repo_a,
                  \<lparr>url = ''https://b.example/raw/index.json'',
                   name = ''https://b.example/raw/index.json'',
                   description = ''(No description)'', enabled = True, protected = False\<rparr>]\<rparr>)"
    by (simp add: tb sample_host_def typing_def shelf_def repo_a_def)
  have add_a: "addTemplateRepo sample_host localhost (trim ''https://a.example/raw/index.json'')
                 ''again'' (typing []) = (Inl (Error ''add failed''), typing [])"
    by (simp add: ta sample_host_def typing_def shelf_def repo_a_def)
  have no_descr: "''(No description)'' =
      (case None of None \<Rightarrow> ''(No description)''
       | Some t \<Rightarrow> if t = [] then ''(No description)'' else trim t)"
    by simp
  have again: "''again'' =
      (case Some ''again'' of None \<Rightarrow> ''(No description)''
       | Some t \<Rightarrow> if t = [] then ''(No description)'' else trim t)"
    by (simp add: tg)
  have page: "manageReposPage (opened (typing as)) = Some 0" for as
    by (simp add: opened_def manageTemplateReposCmd_def initial_def Let_def
          vscode_window_createWebviewPanel_def refreshPage_def fetchRepositoryList_def
          webview_set_html_def on_panel_def sample_host_def typing_def shelf_def
        split: option.splits sum.splits prod.splits)
  have pan: "panels (opened (typing [Some ''  https://b.example/raw/index.json '', None])) 0 =
     Some \<lparr>title = REPOS_PAGE_TITLE, html = ''<tr>https://a.example/raw/index.json on</tr>'',
           iconPath = Some (getIconPaths sample_host), onDidDispose = True,
           onDidReceiveMessage = Some localhost\<rparr>"
    by code_simp
  have get: "get_TEMPLATE_REPOS sample_host localhost
               ((typing [])\<lparr>backend := [repo_a,
                  \<lparr>url = ''https://b.example/raw/index.json'',
                   name = ''https://b.example/raw/index.json'',
                   description = ''(No description)'', enabled = True, protected = False\<rparr>]\<rparr>) =
             (Inr [repo_a,
                  \<lparr>url = ''https://b.example/raw/index.json'',
                   name = ''https://b.example/raw/index.json'',
                   description = ''(No description)'', enabled = True, protected = False\<rparr>],
              (typing [])\<lparr>backend := [repo_a,
                  \<lparr>url = ''https://b.example/raw/index.json'',
                   name = ''https://b.example/raw/index.json'',
                   description = ''(No description)'', enabled = True, protected = False\<rparr>]\<rparr>)"
    by (simp add: sample_host_def typing_def shelf_def)
  have doc: "generateManageReposHtml sample_host [repo_a,
                  \<lparr>url = ''https://b.example/raw/index.json'',
                   name = ''https://b.example/raw/index.json'',
                   description = ''(No description)'', enabled = True, protected = False\<rparr>] =
     ''<tr>https://a.example/raw/index.json on</tr><tr>https://b.example/raw/index.json on</tr>''"
    by (simp add: sample_host_def repo_a_def)
  have dev: "CW_ENV_DEV sample_host = False" by (simp add: sample_host_def)
  have cancelled: "new_events (opened (typing [None]))
       (snd (handleWebviewMessage sample_host localhost add_new (opened (typing [None])))) =
     [Log_d (''Adding new repo to '' @ Connection.url localhost) [],
      showInputBox_call ''Enter the URL to your template repository's index file.'' None]"
    using add_new_prompts_then_adds
            [OF ty refl first [of None "[]"] refl, THEN conjunct1]
    by simp
  note added = add_new_prompts_then_adds
            [OF ty refl first [of "Some ''  https://b.example/raw/index.json ''" "[None]"] refl,
             THEN conjunct2, rule_format, OF refl _ box [of description_box None "[]"]
               no_descr add_b refl refl,
             THEN conjunct2, THEN conjunct2, THEN conjunct2, THEN conjunct1,
             rule_format, OF _ _ page pan get]
  have whole: "new_events (opened (typing [Some ''  https://b.example/raw/index.json '', None]))
       (snd (handleWebviewMessage sample_host localhost add_new
               (opened (typing [Some ''  https://b.example/raw/index.json '', None])))) =
     [Log_d (''Adding new repo to '' @ Connection.url localhost) [],
      showInputBox_call ''Enter the URL to your template repository's index file.'' None,
      showInputBox_call ''Enter a description for this template repository'' None,
      addTemplateRepo_call localhost ''https://b.example/raw/index.json'' ''(No description)''
        None,
      get_TEMPLATE_REPOS_call localhost None,
      set_html 0
        ''<tr>https://a.example/raw/index.json on</tr><tr>https://b.example/raw/index.json on</tr>''
        None]"
    using added by (simp add: tb rejection_def refresh_events_def dev doc)
  have shown: "pages (snd (handleWebviewMessage sample_host localhost add_new
               (opened (typing [Some ''  https://b.example/raw/index.json '', None])))) 0 =
     Some ''<tr>https://a.example/raw/index.json on</tr><tr>https://b.example/raw/index.json on</tr>''"
    using added by (simp add: doc)
  note refused0 = add_new_prompts_then_adds
            [OF ty refl first [of "Some ''https://a.example/raw/index.json''" "[Some ''again'']"] refl,
             THEN conjunct2, rule_format, OF refl _ box [of description_box "Some ''again''" "[]"]
               again add_a refl refl,
             THEN conjunct2, THEN conjunct1]
  have refused: "new_events (opened (typing [Some ''https://a.example/raw/index.json'', Some ''again'']))
       (snd (handleWebviewMessage sample_host localhost add_new
               (opened (typing [Some ''https://a.example/raw/index.json'', Some ''again''])))) =
     [Log_d (''Adding new repo to '' @ Connection.url localhost) [],
      showInputBox_call ''Enter the URL to your template repository's index file.'' None,
      showInputBox_call ''Enter a description for this template repository'' None,
      addTemplateRepo_call localhost ''https://a.example/raw/index.json'' ''again''
        (Some (Error ''add failed'')),
      showErrorMessage (''Error adding new template repository: ''
                        @ errToString sample_host (Error ''add failed'')) (Error ''add failed''),
      Log_e ''Error adding new template repo [object Object]''
        [An_error (Error ''add failed'')]]"
    using refused0 by (simp add: ta tg rejection_def)
  show ?thesis
    by (intro conjI ty cancelled whole shown refused)
qed

subsection \<open>Failures while a message is handled\<close>

lemma unreported_append:
  "ev \<in> set (unreported (xs @ ys)) \<Longrightarrow>
     (ev \<in> set (unreported xs) \<and> (\<forall>err. failure_of ev = Some err \<longrightarrow> \<not> list_ex (reports err) ys))
     \<or> ev \<in> set (unreported ys)"
  by (induction xs) (auto split: option.splits if_splits)

lemma unreported_failure: "ev \<in> set (unreported evs) \<Longrightarrow> failure_of ev \<noteq> None"
  by (induction evs) (auto split: option.splits if_splits)

lemma settled_Nil [simp]: "settled p []"
  by (simp add: settled_def)

lemma settled_Cons_quiet [simp]:
  "failure_of ev = None \<Longrightarrow> settled p (ev # evs) = settled p evs"
  by (simp add: settled_def)

lemma settled_Cons_failed:
  "failure_of ev = Some err \<Longrightarrow>
   settled p (ev # evs) =
     ((is_enableTemplateRepos_call ev \<or> list_ex (reports err) evs \<or> p = Some err) \<and> settled p evs)"
  by (auto simp: settled_def)

lemma settled_append:
  assumes "settled q xs" and "settled p ys"
    and "q = None \<or> q = p \<or> (\<exists>err. q = Some err \<and> list_ex (reports err) ys)"
  shows "settled p (xs @ ys)"
  unfolding settled_def
proof
  fix ev assume "ev \<in> set (unreported (xs @ ys))"
  then consider
    (left) "ev \<in> set (unreported xs)" "\<forall>err. failure_of ev = Some err \<longrightarrow> \<not> list_ex (reports err) ys"
    | (right) "ev \<in> set (unreported ys)"
    using unreported_append by blast
  then show "is_enableTemplateRepos_call ev \<or> failure_of ev = p"
  proof cases
    case left
    then have "is_enableTemplateRepos_call ev \<or> failure_of ev = q"
      using assms(1) by (simp add: settled_def)
    moreover have "failure_of ev \<noteq> None" using left(1) by (rule unreported_failure)
    ultimately show ?thesis using assms(3) left(2) by auto
  next
    case right
    then show ?thesis using assms(2) by (simp add: settled_def)
  qed
qed

lemma refreshPage_settled:
  "refreshPage h c w = (r, w') \<Longrightarrow> \<exists>evs. trace w' = trace w @ evs \<and> settled (rejection r) evs"
  by (auto simp: refreshPage_def fetchRepositoryList_def webview_set_html_def Let_def
        write_debug_page_def settled_Cons_failed rejection_def emit_def
      split: option.splits prod.splits sum.splits if_splits)

lemma promptForNewRepo_settled:
  "promptForNewRepo h w = (r, w') \<Longrightarrow> \<exists>evs. trace w' = trace w @ evs \<and> settled (rejection r) evs"
  by (auto simp: promptForNewRepo_def vscode_window_showInputBox_def settled_Cons_failed rejection_def emit_def
      split: option.splits prod.splits sum.splits if_splits)

lemma handle_ENABLE_DISABLE_settled:
  assumes "handle_ENABLE_DISABLE h c msg w = (r, w')"
  shows "\<exists>evs. trace w' = trace w @ evs \<and> settled (rejection r) evs"
proof -
  obtain r1 e1 where en: "enableTemplateRepos h c (data msg) (outside w) = (r1, e1)"
    by (cases "enableTemplateRepos h c (data msg) (outside w)")
  define w1 where "w1 = emit (enableTemplateRepos_call c (data msg) (rejection r1))
                ((emit (Log_i ''Enable/Disable repos:'' [An_any (data msg)]) w)\<lparr>outside := e1\<rparr>)"
  have t1: "trace w1 = trace w @ [Log_i ''Enable/Disable repos:'' [An_any (data msg)],
                                   enableTemplateRepos_call c (data msg) (rejection r1)]"
    by (simp add: w1_def emit_def)
  have s1: "settled None [Log_i ''Enable/Disable repos:'' [An_any (data msg)],
                          enableTemplateRepos_call c (data msg) (rejection r1)]"
    by (cases "rejection r1") (simp_all add: settled_Cons_failed)
  show ?thesis
  proof (cases r1)
    case (Inr u)
    then have "r = Inr ()" "w' = w1"
      using assms en by (auto simp: handle_ENABLE_DISABLE_def Requester_enableTemplateRepos_def w1_def)
    then show ?thesis using t1 s1 by (auto simp: rejection_def)
  next
    case (Inl err)
    then have "refreshPage h c w1 = (r, w')"
      using assms en by (auto simp: handle_ENABLE_DISABLE_def Requester_enableTemplateRepos_def w1_def)
    then obtain evs where evs: "trace w' = trace w1 @ evs" "settled (rejection r) evs"
      using refreshPage_settled by blast
    have "settled (rejection r) ([Log_i ''Enable/Disable repos:'' [An_any (data msg)],
                          enableTemplateRepos_call c (data msg) (rejection r1)] @ evs)"
      using s1 evs(2) by (rule settled_append) simp
    then show ?thesis using evs(1) t1 by auto
  qed
qed

lemma catch_DELETE_settles:
  assumes "trace w1 = trace w @ evs" and "settled (Some err) evs"
  shows "\<exists>evs'. trace (catch_DELETE h d err w1) = trace w @ evs' \<and> settled None evs'"
proof -
  have "settled None (evs @ [showErrorMessage
                (''Error deleting template repository '' @ String_of d
                 @ '': '' @ errToString h err) err,
          Log_e (''Error removing template repo '' @ String_of d) [An_error err]])"
    using assms(2) by (rule settled_append) simp_all
  then show ?thesis using assms(1) by (simp add: catch_DELETE_def emit_def)
qed

lemma catch_ADD_NEW_settles:
  assumes "trace w1 = trace w @ evs" and "settled (Some err) evs"
  shows "\<exists>evs'. trace (catch_ADD_NEW h err w1) = trace w @ evs' \<and> settled None evs'"
proof -
  have "settled None (evs @ [showErrorMessage
                (''Error adding new template repository: '' @ errToString h err) err,
                Log_e ''Error adding new template repo [object Object]'' [An_error err]])"
    using assms(2) by (rule settled_append) simp_all
  then show ?thesis using assms(1) by (simp add: catch_ADD_NEW_def emit_def)
qed

lemma refreshPage_after:
  assumes "trace w1 = trace w @ evs" and "settled None evs" and "refreshPage h c w1 = (r, w2)"
  shows "\<exists>evs'. trace w2 = trace w @ evs' \<and> settled (rejection r) evs'"
proof -
  obtain more where more: "trace w2 = trace w1 @ more" "settled (rejection r) more"
    using refreshPage_settled [OF assms(3)] by blast
  have "settled (rejection r) (evs @ more)"
    using assms(2) more(2) by (rule settled_append) simp
  then show ?thesis using assms(1) more(1) by auto
qed

lemma handle_DELETE_settled:
  assumes "handle_DELETE h c msg w = (r, w')"
  shows "\<exists>evs. trace w' = trace w @ evs \<and> settled (rejection r) evs"
proof -
  obtain r1 e1 where rm: "removeTemplateRepo h c (data msg) (outside w) = (r1, e1)"
    by (cases "removeTemplateRepo h c (data msg) (outside w)")
  define first where "first = [Log_d (''Delete repo '' @ String_of (data msg) @ '' from ''
                            @ Connection.url c) [], removeTemplateRepo_call c (data msg) (rejection r1)]"
  define w1 where "w1 = emit (removeTemplateRepo_call c (data msg) (rejection r1))
                ((emit (Log_d (''Delete repo '' @ String_of (data msg) @ '' from ''
                            @ Connection.url c) []) w)\<lparr>outside := e1\<rparr>)"
  have t1: "trace w1 = trace w @ first"
    by (simp add: w1_def emit_def first_def)
  have s1: "settled (rejection r1) first"
    by (cases "rejection r1") (simp_all add: settled_Cons_failed first_def)
  show ?thesis
  proof (cases r1)
    case (Inl err)
    then have res: "r = Inr ()" "w' = catch_DELETE h (data msg) err w1"
      using assms rm by (auto simp: handle_DELETE_def Requester_removeTemplateRepo_def w1_def Let_def)
    have "settled (Some err) first" using s1 Inl by (simp add: rejection_def)
    from catch_DELETE_settles [OF t1 this] show ?thesis using res by (simp add: rejection_def)
  next
    case (Inr u)
    then have s0: "settled None first" using s1 by (simp add: rejection_def)
    obtain r2 w2 where rf: "refreshPage h c w1 = (r2, w2)" by (cases "refreshPage h c w1")
    from refreshPage_after [OF t1 s0 rf]
    obtain evs where evs: "trace w2 = trace w @ evs" "settled (rejection r2) evs" by blast
    show ?thesis
    proof (cases r2)
      case (Inl err)
      then have res: "r = Inr ()" "w' = catch_DELETE h (data msg) err w2"
        using assms rm Inr rf
        by (auto simp: handle_DELETE_def Requester_removeTemplateRepo_def w1_def Let_def)
      have "settled (Some err) evs" using evs(2) Inl by (simp add: rejection_def)
      from catch_DELETE_settles [OF evs(1) this] show ?thesis using res by (simp add: rejection_def)
    next
      case (Inr u2)
      then have res: "r = Inr ()" "w' = w2"
        using assms rm \<open>r1 = Inr u\<close> rf
        by (auto simp: handle_DELETE_def Requester_removeTemplateRepo_def w1_def Let_def)
      then show ?thesis using evs Inr by (auto simp: rejection_def)
    qed
  qed
qed


lemma handle_ADD_NEW_settled:
  assumes "handle_ADD_NEW h c msg w = (r, w')"
  shows "\<exists>evs. trace w' = trace w @ evs \<and> settled (rejection r) evs"
proof -
  define w0 where "w0 = emit (Log_d (''Adding new repo to '' @ Connection.url c) []) w"
  obtain r0 w1 where pr: "promptForNewRepo h w0 = (r0, w1)" by (cases "promptForNewRepo h w0")
  obtain asked where asked: "trace w1 = trace w0 @ asked" "settled (rejection r0) asked"
    using promptForNewRepo_settled [OF pr] by blast
  define first where "first = Log_d (''Adding new repo to '' @ Connection.url c) [] # asked"
  have t1: "trace w1 = trace w @ first"
    using asked(1) by (simp add: w0_def emit_def first_def)
  have s1: "settled (rejection r0) first"
    using asked(2) by (simp add: first_def)
  show ?thesis
  proof (cases r0)
    case (Inl err)
    then have "r = Inl err" "w' = w1"
      using assms pr by (auto simp: handle_ADD_NEW_def w0_def)
    then show ?thesis using t1 s1 Inl by (auto simp: rejection_def)
  next
    case (Inr answer)
    then have s0: "settled None first" using s1 by (simp add: rejection_def)
    show ?thesis
    proof (cases answer)
      case None
      then have "r = Inr ()" "w' = w1"
        using assms pr Inr by (auto simp: handle_ADD_NEW_def w0_def)
      then show ?thesis using t1 s0 by (auto simp: rejection_def)
    next
      case (Some info)
      obtain repoUrl descr where info: "info = (repoUrl, descr)" by (cases info)
      obtain r1 e1 where add: "addTemplateRepo h c repoUrl descr (outside w1) = (r1, e1)"
        by (cases "addTemplateRepo h c repoUrl descr (outside w1)")
      define w2 where "w2 = emit (addTemplateRepo_call c repoUrl descr (rejection r1))
                              (w1\<lparr>outside := e1\<rparr>)"
      have t2: "trace w2 = trace w @ (first @ [addTemplateRepo_call c repoUrl descr (rejection r1)])"
        using t1 by (simp add: w2_def emit_def)
      have "settled (rejection r1) [addTemplateRepo_call c repoUrl descr (rejection r1)]"
        by (cases "rejection r1") (simp_all add: settled_Cons_failed)
      with s0 have s2: "settled (rejection r1)
                          (first @ [addTemplateRepo_call c repoUrl descr (rejection r1)])"
        by (rule settled_append) simp
      show ?thesis
      proof (cases r1)
        case (Inl err)
        then have res: "r = Inr ()" "w' = catch_ADD_NEW h err w2"
          using assms pr \<open>r0 = Inr answer\<close> Some info add
          by (auto simp: handle_ADD_NEW_def Requester_addTemplateRepo_def w0_def w2_def)
        have "settled (Some err) (first @ [addTemplateRepo_call c repoUrl descr (rejection r1)])"
          using s2 Inl by (simp add: rejection_def)
        from catch_ADD_NEW_settles [OF t2 this] show ?thesis using res by (simp add: rejection_def)
      next
        case (Inr u)
        then have s3: "settled None (first @ [addTemplateRepo_call c repoUrl descr (rejection r1)])"
          using s2 by (simp add: rejection_def)
        obtain r2 w3 where rf: "refreshPage h c w2 = (r2, w3)" by (cases "refreshPage h c w2")
        from refreshPage_after [OF t2 s3 rf]
        obtain evs where evs: "trace w3 = trace w @ evs" "settled (rejection r2) evs" by blast
        show ?thesis
        proof (cases r2)
          case (Inl err)
          then have res: "r = Inr ()" "w' = catch_ADD_NEW h err w3"
            using assms pr \<open>r0 = Inr answer\<close> Some info add \<open>r1 = Inr u\<close> rf
            by (auto simp: handle_ADD_NEW_def Requester_addTemplateRepo_def w0_def w2_def)
          have "settled (Some err) evs" using evs(2) Inl by (simp add: rejection_def)
          from catch_ADD_NEW_settles [OF evs(1) this] show ?thesis
            using res by (simp add: rejection_def)
        next
          case (Inr u2)
          then have res: "r = Inr ()" "w' = w3"
            using assms pr \<open>r0 = Inr answer\<close> Some info add \<open>r1 = Inr u\<close> rf
            by (auto simp: handle_ADD_NEW_def Requester_addTemplateRepo_def w0_def w2_def)
          then show ?thesis using evs Inr by (auto simp: rejection_def)
        qed
      qed
    qed
  qed
qed

lemma handle_switch_settled:
  assumes "handle_switch h c msg w = (r, w')"
  shows "\<exists>evs. trace w' = trace w @ evs \<and> settled (rejection r) evs"
proof (cases "type msg = ENABLE_DISABLE")
  case True
  then have "handle_ENABLE_DISABLE h c msg w = (r, w')"
    using assms by (simp add: handle_switch_def)
  then show ?thesis by (rule handle_ENABLE_DISABLE_settled)
next
  case not_enable: False
  show ?thesis
  proof (cases "type msg = ADD_NEW")
    case True
    then have "handle_ADD_NEW h c msg w = (r, w')"
      using assms not_enable by (simp add: handle_switch_def)
    then show ?thesis by (rule handle_ADD_NEW_settled)
  next
    case not_add: False
    show ?thesis
    proof (cases "type msg = DELETE")
      case True
      then have "handle_DELETE h c msg w = (r, w')"
        using assms not_enable not_add by (simp add: handle_switch_def)
      then show ?thesis by (rule handle_DELETE_settled)
    next
      case not_delete: False
      show ?thesis
      proof (cases "type msg = HELP")
        case True
        then have "r = Inr ()" "trace w' = trace w @ [showInformationMessage
                         ''More information about this page, or open a webpage, probably'']"
          using assms not_enable not_add not_delete by (auto simp: handle_switch_def)
        then show ?thesis by (simp add: rejection_def)
      next
        case not_help: False
        show ?thesis
        proof (cases "type msg = REFRESH")
          case True
          then have "refreshPage h c w = (r, w')"
            using assms not_enable not_add not_delete not_help by (simp add: handle_switch_def)
          then show ?thesis by (rule refreshPage_settled)
        next
          case False
          then have "r = Inr ()"
            "trace w' = trace w @ [Log_e ''Received unknown event from manage templates webview:''
                            [A_message msg]]"
            using assms not_enable not_add not_delete not_help by (auto simp: handle_switch_def)
          then show ?thesis by (simp add: rejection_def)
        qed
      qed
    qed
  qed
qed

lemma handleWebviewMessage_settled:
  assumes "handleWebviewMessage h c msg w = (r, w')"
  shows "r = Inr () \<and> (\<exists>evs. trace w' = trace w @ evs \<and> settled None evs)"
proof -
  obtain r1 w1 where sw: "handle_switch h c msg w = (r1, w1)" by (cases "handle_switch h c msg w")
  obtain evs where evs: "trace w1 = trace w @ evs" "settled (rejection r1) evs"
    using handle_switch_settled [OF sw] by blast
  show ?thesis
  proof (cases r1)
    case (Inr u)
    then have "r = Inr ()" "w' = w1"
      using assms sw by (auto simp: handleWebviewMessage_def)
    then show ?thesis using evs Inr by (auto simp: rejection_def)
  next
    case (Inl err)
    then have res: "r = Inr ()"
      "w' = emit (Log_e ''Message was'' [A_message msg])
             (emit (Log_e ''Error processing message from manage templates webview''
                      [An_error err]) w1)"
      using assms sw by (auto simp: handleWebviewMessage_def)
    have "settled (Some err) evs" using evs(2) Inl by (simp add: rejection_def)
    then have "settled None (evs @ [Log_e ''Error processing message from manage templates webview''
                      [An_error err], Log_e ''Message was'' [A_message msg]])"
      by (rule settled_append) simp_all
    then show ?thesis using res evs(1) by (auto simp: emit_def)
  qed
qed

text \<open>
  Claim C5, as the code has it. For every message, host and state the promise of
  \<^verbatim>\<open>handleWebviewMessage\<close> resolves: no error leaves the handler. The handler leaves the
  panel reference, the live panels and their listeners as they were, so the next message
  is handled too. Of the calls that failed while the message was handled, every one is
  followed by a \<^verbatim>\<open>Log.e\<close> line or an error notification that carries its error,
  except a failed \<^verbatim>\<open>Requester.enableTemplateRepos\<close>: its \<^verbatim>\<open>catch\<close> reports nothing
  and refreshes the page instead.
\<close>

theorem handler_never_rejects:
  "fst (handleWebviewMessage h c msg w) = Inr ()
   \<and> manageReposPage (snd (handleWebviewMessage h c msg w)) = manageReposPage w
   \<and> listeners (snd (handleWebviewMessage h c msg w)) = listeners w
   \<and> list_all is_enableTemplateRepos_call
       (unreported (new_events w (snd (handleWebviewMessage h c msg w))))"
proof -
  obtain r w' where res: "handleWebviewMessage h c msg w = (r, w')"
    by (cases "handleWebviewMessage h c msg w")
  from handleWebviewMessage_settled [OF res]
  obtain evs where evs: "r = Inr ()" "trace w' = trace w @ evs" "settled None evs" by blast
  have "new_events w w' = evs" using evs(2) by (simp add: new_events_def)
  moreover have "list_all is_enableTemplateRepos_call (unreported evs)"
    using evs(3) unreported_failure by (fastforce simp: settled_def list_all_iff)
  ultimately show ?thesis
    using res evs(1) handleWebviewMessage_frame [OF res] by simp
qed

theorem handler_never_rejects_witness:
  "fst (handleWebviewMessage sample_host localhost delete_a (opened (broken [''remove'', ''get'']))) =
     Inr ()
   \<and> unreported (new_events (opened (broken [''remove'', ''get'']))
        (snd (handleWebviewMessage sample_host localhost delete_a
                (opened (broken [''remove'', ''get'']))))) = []
   \<and> list_all is_enableTemplateRepos_call
       (unreported (new_events (opened (broken [''enable'', ''get'']))
          (snd (handleWebviewMessage sample_host localhost disable_a
                  (opened (broken [''enable'', ''get''])))))) "
proof -
  have "unreported (new_events (opened (broken [''remove'', ''get'']))
        (snd (handleWebviewMessage sample_host localhost delete_a
                (opened (broken [''remove'', ''get'']))))) = []"
    by code_simp
  then show ?thesis
    using handler_never_rejects [of sample_host localhost delete_a
            "opened (broken [''remove'', ''get''])"]
      handler_never_rejects [of sample_host localhost disable_a
            "opened (broken [''enable'', ''get''])"]
    by simp
qed

text \<open>
  Claim C5 as stated says that every failure is reported. It is not: with a backend
  whose \<^verbatim>\<open>enableTemplateRepos\<close> fails and whose list can be fetched, the handler
  records the failed call, the fetch and the new page, and no event reports the error.
\<close>

theorem silent_enable_failure:
  "new_events (opened (broken [''enable'']))
     (snd (handleWebviewMessage sample_host localhost disable_a (opened (broken [''enable''])))) =
   [Log_i ''Enable/Disable repos:'' [An_any (data disable_a)],
    enableTemplateRepos_call localhost (data disable_a) (Some (Error ''enablement failed'')),
    get_TEMPLATE_REPOS_call localhost None,
    set_html 0 ''<tr>https://a.example/raw/index.json on</tr>'' None]
   \<and> unreported (new_events (opened (broken [''enable'']))
     (snd (handleWebviewMessage sample_host localhost disable_a (opened (broken [''enable'']))))) =
   [enableTemplateRepos_call localhost (data disable_a) (Some (Error ''enablement failed''))]"
  by code_simp

subsection \<open>One panel at a time\<close>

lemma dom_listeners: "dom (listeners w) = dom (panels w)"
  by (auto simp: listeners_def dom_def)

lemma listeners_empty: "listeners w = Map.empty \<longleftrightarrow> panels w = Map.empty"
  by (auto simp: listeners_def fun_eq_iff)

lemma one_panel_dom: "one_panel w \<Longrightarrow> dom (panels w) = set_option (manageReposPage w)"
  unfolding dom_listeners [symmetric] by (auto simp: one_panel_def split: option.splits if_splits)

lemma one_panel_initial: "one_panel (initial e)"
  by (simp add: one_panel_def initial_def listeners_def)

lemma listeners_on_panel:
  "listeners (on_panel p f w) =
     (\<lambda>q. if q = p then map_option (\<lambda>pan. (title (f pan), iconPath (f pan), onDidDispose (f pan),
                 onDidReceiveMessage (f pan))) (panels w p) else listeners w q)"
  by (auto simp: on_panel_def listeners_def fun_eq_iff split: option.splits)

lemma on_panel_simps [simp]:
  "manageReposPage (on_panel p f w) = manageReposPage w"
  "next_handle (on_panel p f w) = next_handle w"
  "trace (on_panel p f w) = trace w"
  "outside (on_panel p f w) = outside w"
  by (simp_all add: on_panel_def split: option.splits)

lemma listeners_onDidReceiveMessage:
  "listeners w p = Some (t, i, d, m) \<Longrightarrow>
   listeners (on_panel p (\<lambda>pan. pan\<lparr>onDidReceiveMessage := Some c\<rparr>) w) =
     (listeners w)(p \<mapsto> (t, i, d, Some c))"
  by (auto simp: listeners_def on_panel_def fun_eq_iff split: option.splits)

lemma manageTemplateReposCmd_reveals:
  "manageReposPage w = Some p \<Longrightarrow> manageTemplateReposCmd h c w = emit (reveal p) w"
  by (simp add: manageTemplateReposCmd_def)

lemma manageTemplateReposCmd_creates:
  assumes "manageReposPage w = None"
  shows "manageReposPage (manageTemplateReposCmd h c w) = Some (next_handle w)
       \<and> next_handle (manageTemplateReposCmd h c w) = Suc (next_handle w)
       \<and> listeners (manageTemplateReposCmd h c w) =
           (listeners w)(next_handle w \<mapsto> (REPOS_PAGE_TITLE, Some (getIconPaths h), True, Some c))
       \<and> (\<exists>evs. trace (manageTemplateReposCmd h c w) =
             trace w @ createWebviewPanel (next_handle w) REPOS_PAGE_TITLE # reveal (next_handle w) # evs)"
proof -
  define p where "p = next_handle w"
  define w4 where "w4 =
     on_panel p (\<lambda>pan. pan\<lparr>iconPath := Some (getIconPaths h)\<rparr>)
       (on_panel p (\<lambda>pan. pan\<lparr>onDidDispose := True\<rparr>)
          (emit (reveal p) ((snd (vscode_window_createWebviewPanel REPOS_PAGE_TITLE w))\<lparr>manageReposPage := Some p\<rparr>)))"
  obtain r w5 where rf: "refreshPage h c w4 = (r, w5)" by (cases "refreshPage h c w4")
  define w6 where "w6 = (case r of Inl err \<Rightarrow> emit (unhandled_rejection err) w5 | Inr u \<Rightarrow> w5)"
  have cmd: "manageTemplateReposCmd h c w =
               on_panel p (\<lambda>pan. pan\<lparr>onDidReceiveMessage := Some c\<rparr>) w6"
    using assms rf
    by (simp add: manageTemplateReposCmd_def vscode_window_createWebviewPanel_def Let_def
          w4_def p_def w6_def)
  have l4: "listeners w4 = (listeners w)(p \<mapsto> (REPOS_PAGE_TITLE, Some (getIconPaths h), True, None))"
    by (auto simp: w4_def listeners_on_panel vscode_window_createWebviewPanel_def Let_def p_def
          on_panel_def listeners_def fun_eq_iff)
  have m4: "manageReposPage w4 = Some p" "next_handle w4 = Suc p"
    "trace w4 = trace w @ [createWebviewPanel p REPOS_PAGE_TITLE, reveal p]"
    by (simp_all add: w4_def vscode_window_createWebviewPanel_def Let_def p_def)
  have f5: "manageReposPage w5 = Some p" "next_handle w5 = Suc p" "listeners w5 = listeners w4"
    using refreshPage_frame [OF rf] m4 by simp_all
  obtain evs where t5: "trace w5 = trace w4 @ evs"
    using refreshPage_trace [of h c w4] rf by auto
  have f6: "manageReposPage w6 = Some p" "next_handle w6 = Suc p" "listeners w6 = listeners w5"
    using f5 by (auto simp: w6_def listeners_def split: sum.splits)
  have t6: "\<exists>evs. trace w6 = trace w4 @ evs"
    using t5 by (auto simp: w6_def split: sum.splits)
  have "listeners w6 p = Some (REPOS_PAGE_TITLE, Some (getIconPaths h), True, None)"
    using f6(3) f5(3) l4 by simp
  then have "listeners (on_panel p (\<lambda>pan. pan\<lparr>onDidReceiveMessage := Some c\<rparr>) w6) =
          (listeners w6)(p \<mapsto> (REPOS_PAGE_TITLE, Some (getIconPaths h), True, Some c))"
    by (rule listeners_onDidReceiveMessage)
  then have "listeners (on_panel p (\<lambda>pan. pan\<lparr>onDidReceiveMessage := Some c\<rparr>) w6) =
          (listeners w)(p \<mapsto> (REPOS_PAGE_TITLE, Some (getIconPaths h), True, Some c))"
    using f6(3) f5(3) l4 by simp
  then show ?thesis
    using cmd f6 t6 m4 by (auto simp: p_def)
qed

lemma one_panel_invoke: "one_panel w \<Longrightarrow> one_panel (manageTemplateReposCmd h c w)"
proof (cases "manageReposPage w")
  case None
  assume "one_panel w"
  then have "listeners w = Map.empty" using None by (simp add: one_panel_def)
  then show ?thesis
    using manageTemplateReposCmd_creates [OF None, of h c] by (auto simp: one_panel_def)
next
  case (Some p)
  assume "one_panel w"
  then show ?thesis using Some
    by (simp add: manageTemplateReposCmd_reveals one_panel_def listeners_def)
qed

lemma dispose_live:
  assumes "one_panel w" and "manageReposPage w = Some p"
  shows "manageReposPage (dispose p w) = None \<and> panels (dispose p w) = Map.empty
       \<and> next_handle (dispose p w) = next_handle w \<and> trace (dispose p w) = trace w"
proof -
  obtain t i m where l: "listeners w = [p \<mapsto> (t, i, True, m)]"
    using assms by (auto simp: one_panel_def)
  then obtain pan where pan: "panels w p = Some pan" "onDidDispose pan"
    by (auto simp: listeners_def fun_eq_iff split: if_splits)
  have "\<And>q. q \<noteq> p \<Longrightarrow> panels w q = None"
    using l by (auto simp: listeners_def fun_eq_iff split: if_splits)
  then have "(panels w)(p := None) = Map.empty" by (auto simp: fun_eq_iff)
  then show ?thesis using pan by (simp add: dispose_def Let_def)
qed

lemma one_panel_dispose: "one_panel w \<Longrightarrow> one_panel (dispose q w)"
proof (cases "panels w q")
  case None
  assume "one_panel w"
  then show ?thesis using None by (simp add: dispose_def)
next
  case (Some pan)
  assume inv: "one_panel w"
  then have "q \<in> set_option (manageReposPage w)"
    using Some one_panel_dom [OF inv] by auto
  then have "manageReposPage w = Some q" by (cases "manageReposPage w") auto
  from dispose_live [OF inv this] show ?thesis
    by (simp add: one_panel_def listeners_def)
qed

lemma one_panel_post: "one_panel w \<Longrightarrow> one_panel (post h p msg w)"
proof -
  assume inv: "one_panel w"
  have "one_panel (snd (handleWebviewMessage h c msg w))" for c
  proof -
    obtain r w' where res: "handleWebviewMessage h c msg w = (r, w')"
      by (cases "handleWebviewMessage h c msg w")
    from handleWebviewMessage_frame [OF res]
    have "manageReposPage w' = manageReposPage w" "next_handle w' = next_handle w"
      "listeners w' = listeners w"
      by simp_all
    then show ?thesis
      using inv res by (simp add: one_panel_def split: option.splits)
  qed
  then show ?thesis using inv by (simp add: post_def split: option.splits)
qed

lemma one_panel_step: "one_panel w \<Longrightarrow> one_panel (step h w ev)"
  by (cases ev) (simp_all add: one_panel_invoke one_panel_dispose one_panel_post)

lemma one_panel_run: "one_panel w \<Longrightarrow> one_panel (run h evs w)"
  unfolding run_def by (induction evs arbitrary: w) (simp_all add: one_panel_step)

text \<open>
  Claim C1. Take any sequence of host events (invocations of the command, panels closed
  by the user, messages of a webview) from the state in which the extension was loaded,
  and let \<open>w\<close> be the state after it. The live panels of this file are exactly the one
  \<^verbatim>\<open>manageReposPage\<close> refers to, so there is at most one. If there is one, invoking the
  command only reveals it: the one new event is \<^verbatim>\<open>reveal\<close>, no panel is created. If
  there is none, invoking the command creates one. And if the live panel \<open>p\<close> is closed,
  the listener sets \<^verbatim>\<open>manageReposPage\<close> back to \<^verbatim>\<open>undefined\<close>, and the next invocation
  creates a panel with a new handle, which is then the only live one.
\<close>

theorem panel_is_singleton:
  assumes "w = run h evs (initial e)"
  shows "dom (panels w) = set_option (manageReposPage w)
       \<and> card (dom (panels w)) \<le> 1
       \<and> (\<forall>p. manageReposPage w = Some p \<longrightarrow>
             manageTemplateReposCmd h c w = emit (reveal p) w)
       \<and> (manageReposPage w = None \<longrightarrow>
             (\<exists>p'. manageReposPage (manageTemplateReposCmd h c w) = Some p'
                \<and> dom (panels (manageTemplateReposCmd h c w)) = {p'}
                \<and> createWebviewPanel p' REPOS_PAGE_TITLE
                     \<in> set (new_events w (manageTemplateReposCmd h c w))))
       \<and> (\<forall>p. manageReposPage w = Some p \<longrightarrow>
             manageReposPage (dispose p w) = None \<and> panels (dispose p w) = Map.empty
             \<and> (\<exists>p'. p' \<noteq> p
                  \<and> manageReposPage (manageTemplateReposCmd h c (dispose p w)) = Some p'
                  \<and> dom (panels (manageTemplateReposCmd h c (dispose p w))) = {p'}
                  \<and> createWebviewPanel p' REPOS_PAGE_TITLE
                       \<in> set (new_events (dispose p w)
                                (manageTemplateReposCmd h c (dispose p w)))))"
proof -
  have inv: "one_panel w"
    using assms by (simp add: one_panel_run one_panel_initial)
  have dom: "dom (panels w) = set_option (manageReposPage w)"
    using inv by (rule one_panel_dom)
  have card: "card (dom (panels w)) \<le> 1"
    unfolding dom by (cases "manageReposPage w") simp_all
  have creates: "manageReposPage (manageTemplateReposCmd h c v) = Some (next_handle v)
                \<and> dom (panels (manageTemplateReposCmd h c v)) = {next_handle v}
                \<and> createWebviewPanel (next_handle v) REPOS_PAGE_TITLE
                     \<in> set (new_events v (manageTemplateReposCmd h c v))"
    if none: "manageReposPage v = None" and empty: "panels v = Map.empty" for v :: "'a world"
  proof -
    note made = manageTemplateReposCmd_creates [OF none, of h c]
    have "listeners v = Map.empty" using empty by (simp add: listeners_empty)
    then have "dom (listeners (manageTemplateReposCmd h c v)) = {next_handle v}"
      using made by simp
    then have "dom (panels (manageTemplateReposCmd h c v)) = {next_handle v}"
      by (simp add: dom_listeners)
    moreover have "createWebviewPanel (next_handle v) REPOS_PAGE_TITLE
                     \<in> set (new_events v (manageTemplateReposCmd h c v))"
      using made by (auto simp: new_events_def)
    ultimately show ?thesis using made by simp
  qed
  have first: "\<exists>p'. manageReposPage (manageTemplateReposCmd h c w) = Some p'
                \<and> dom (panels (manageTemplateReposCmd h c w)) = {p'}
                \<and> createWebviewPanel p' REPOS_PAGE_TITLE
                     \<in> set (new_events w (manageTemplateReposCmd h c w))"
    if none: "manageReposPage w = None"
  proof -
    have "panels w = Map.empty" using dom none by simp
    from creates [OF none this] show ?thesis by (rule exI)
  qed
  have again: "manageReposPage (dispose p w) = None \<and> panels (dispose p w) = Map.empty
             \<and> (\<exists>p'. p' \<noteq> p
                  \<and> manageReposPage (manageTemplateReposCmd h c (dispose p w)) = Some p'
                  \<and> dom (panels (manageTemplateReposCmd h c (dispose p w))) = {p'}
                  \<and> createWebviewPanel p' REPOS_PAGE_TITLE
                       \<in> set (new_events (dispose p w)
                                (manageTemplateReposCmd h c (dispose p w))))"
    if some: "manageReposPage w = Some p" for p
  proof -
    note closed = dispose_live [OF inv some]
    have gone: "manageReposPage (dispose p w) = None" "panels (dispose p w) = Map.empty"
      using closed by simp_all
    have "p < next_handle w" using inv some by (simp add: one_panel_def)
    then have fresh: "next_handle (dispose p w) \<noteq> p" using closed by simp
    have "next_handle (dispose p w) \<noteq> p
        \<and> manageReposPage (manageTemplateReposCmd h c (dispose p w)) =
            Some (next_handle (dispose p w))
        \<and> dom (panels (manageTemplateReposCmd h c (dispose p w))) = {next_handle (dispose p w)}
        \<and> createWebviewPanel (next_handle (dispose p w)) REPOS_PAGE_TITLE
             \<in> set (new_events (dispose p w) (manageTemplateReposCmd h c (dispose p w)))"
      using fresh creates [OF gone] by (rule conjI)
    then have "\<exists>p'. p' \<noteq> p
                  \<and> manageReposPage (manageTemplateReposCmd h c (dispose p w)) = Some p'
                  \<and> dom (panels (manageTemplateReposCmd h c (dispose p w))) = {p'}
                  \<and> createWebviewPanel p' REPOS_PAGE_TITLE
                       \<in> set (new_events (dispose p w)
                                (manageTemplateReposCmd h c (dispose p w)))"
      by (rule exI)
    with gone show ?thesis by (intro conjI)
  qed
  have reveals: "manageTemplateReposCmd h c w = emit (reveal p) w"
    if "manageReposPage w = Some p" for p
    using that by (rule manageTemplateReposCmd_reveals)
  have c3: "\<forall>p. manageReposPage w = Some p \<longrightarrow>
             manageTemplateReposCmd h c w = emit (reveal p) w"
    using reveals by (intro allI impI)
  have c4: "manageReposPage w = None \<longrightarrow>
             (\<exists>p'. manageReposPage (manageTemplateReposCmd h c w) = Some p'
                \<and> dom (panels (manageTemplateReposCmd h c w)) = {p'}
                \<and> createWebviewPanel p' REPOS_PAGE_TITLE
                     \<in> set (new_events w (manageTemplateReposCmd h c w)))"
    using first by (intro impI)
  have c5: "\<forall>p. manageReposPage w = Some p \<longrightarrow>
             manageReposPage (dispose p w) = None \<and> panels (dispose p w) = Map.empty
             \<and> (\<exists>p'. p' \<noteq> p
                  \<and> manageReposPage (manageTemplateReposCmd h c (dispose p w)) = Some p'
                  \<and> dom (panels (manageTemplateReposCmd h c (dispose p w))) = {p'}
                  \<and> createWebviewPanel p' REPOS_PAGE_TITLE
                       \<in> set (new_events (dispose p w)
                                (manageTemplateReposCmd h c (dispose p w))))"
    using again by (intro allI impI)
  show ?thesis
    by (intro conjI dom card c3 c4 c5)
qed

theorem panel_is_singleton_witness:
  "manageReposPage (run sample_host [Invoke localhost, Post 0 disable_a, Invoke localhost]
                      (initial shelf)) = Some 0
   \<and> card (dom (panels (run sample_host [Invoke localhost, Post 0 disable_a, Invoke localhost]
                          (initial shelf)))) \<le> 1
   \<and> manageTemplateReposCmd sample_host localhost
       (run sample_host [Invoke localhost, Post 0 disable_a, Invoke localhost] (initial shelf)) =
     emit (reveal 0)
       (run sample_host [Invoke localhost, Post 0 disable_a, Invoke localhost] (initial shelf))
   \<and> manageReposPage
       (dispose 0 (run sample_host [Invoke localhost, Post 0 disable_a, Invoke localhost]
                     (initial shelf))) = None
   \<and> manageReposPage (run sample_host [Invoke localhost, Close 0, Invoke localhost]
                        (initial shelf)) = Some 1"
proof -
  have live: "manageReposPage (run sample_host [Invoke localhost, Post 0 disable_a, Invoke localhost]
                      (initial shelf)) = Some 0"
    by code_simp
  have reopened: "manageReposPage (run sample_host [Invoke localhost, Close 0, Invoke localhost]
                        (initial shelf)) = Some 1"
    by code_simp
  note one = panel_is_singleton [OF refl, of sample_host
               "[Invoke localhost, Post 0 disable_a, Invoke localhost]" shelf localhost]
  note at_most = one [THEN conjunct2, THEN conjunct1]
  note only_revealed = one [THEN conjunct2, THEN conjunct2, THEN conjunct1, rule_format, OF live]
  note closed = one [THEN conjunct2, THEN conjunct2, THEN conjunct2, THEN conjunct2,
                     rule_format, OF live, THEN conjunct1]
  show ?thesis
    by (intro conjI live at_most only_revealed closed reopened)
qed

subsection \<open>Which schemes the validator accepts\<close>

lemma validateRepoInput_generic_iff:
  "validateRepoInput parse input = Some ''The repository URL must be a valid http(s) URL.''
   \<longleftrightarrow> (case parse input of
          None \<Rightarrow> True
        | Some asUrl \<Rightarrow> host asUrl = [] \<or> \<not> startsWith (protocol asUrl) ''http'')"
  by (simp add: validateRepoInput_def getRawLinkMsg_def split: option.splits)

lemma validateRepoInput_accepts:
  assumes "validateRepoInput parse input = None"
  shows "\<exists>asUrl. parse input = Some asUrl \<and> host asUrl \<noteq> []
           \<and> (\<exists>rest. protocol asUrl = ''http'' @ rest)"
  using assms
  by (auto simp: validateRepoInput_def startsWith_iff split: option.splits if_splits)

lemma validateRepoInput_no_scheme:
  "parse ''not-a-url'' = None \<Longrightarrow>
   validateRepoInput parse ''not-a-url'' =
     Some ''The repository URL must be a valid http(s) URL.''"
  by (simp add: validateRepoInput_def)

text \<open>
  Claim C6 says that no input whose scheme is neither \<^verbatim>\<open>http\<close> nor \<^verbatim>\<open>https\<close> is
  accepted. The test of the code is \<^verbatim>\<open>asUrl.protocol.startsWith("http")\<close>, which also
  holds of a scheme that only begins with these four letters: Node parses
  \<^verbatim>\<open>httpx://example.com/index.json\<close> with protocol \<^verbatim>\<open>httpx:\<close> and host
  \<^verbatim>\<open>example.com\<close>, and \<^verbatim>\<open>validateRepoInput\<close> returns \<^verbatim>\<open>undefined\<close> for it: the
  input is accepted.
\<close>

theorem validate_accepts_httpx:
  "sample_URL ''httpx://example.com/index.json'' =
     Some \<lparr>protocol = ''httpx:'', host = ''example.com'', pathname = ''/index.json''\<rparr>
   \<and> validateRepoInput sample_URL ''httpx://example.com/index.json'' = None
   \<and> sample_URL ''not-a-url'' = None
   \<and> validateRepoInput sample_URL ''not-a-url'' =
       Some ''The repository URL must be a valid http(s) URL.''"
  by code_simp

end
